theory Spec2Isabelle
  imports Complex_Main
begin

section \<open>Data model of the animal speed chart\<close>

text \<open>
  The chart component (\<open>AnimalSpeedGraph\<close>) keeps a list of \<open>AnimalDatum\<close> rows and draws
  them with the D3 scales. A JavaScript number is an exact real or not-a-number; rounding
  error and the infinities are outside the model. The loader coerces the speed cell with
  unary plus, so a cell that is not numeric arrives as \<open>NaN\<close>. The \<open>diet\<close> field has a
  union type in TypeScript, but the loader only casts the CSV cell, so at run time it is
  an arbitrary string and is modelled as one.
\<close>

datatype num = Fin real | NaN

record AnimalDatum =
  name :: string
  speed :: num
  diet :: string

text \<open>
  Arithmetic on numbers: \<open>NaN\<close> in, \<open>NaN\<close> out. A value that may be \<open>undefined\<close> is an
  option; in arithmetic \<open>undefined\<close> coerces to \<open>NaN\<close>.
\<close>

fun js_sub :: "num \<Rightarrow> num \<Rightarrow> num" where
  "js_sub (Fin a) (Fin b) = Fin (a - b)"
| "js_sub a b = NaN"

fun js_add :: "num \<Rightarrow> num \<Rightarrow> num" where
  "js_add (Fin a) (Fin b) = Fin (a + b)"
| "js_add a b = NaN"

definition to_number :: "num option \<Rightarrow> num" where
  "to_number v = (case v of None \<Rightarrow> NaN | Some n \<Rightarrow> n)"

section \<open>The D3 functions the component calls\<close>

text \<open>
  The functions of this section are library code (d3-array, d3-scale) that the component
  imports; they are written here after the library's implementation, restricted to the
  configuration the component uses.
\<close>

subsection \<open>d3-array: \<open>max\<close>\<close>

text \<open>
  \<open>max(values, accessor)\<close> scans left to right and keeps the largest value seen. A value
  replaces the maximum when \<open>max < value\<close>, or when there is no maximum yet and
  \<open>value >= value\<close>; both comparisons are false for \<open>NaN\<close>, so \<open>NaN\<close> is skipped. With
  no number among the values the result is \<open>undefined\<close>, here \<open>None\<close>.
\<close>

definition max_step :: "real option \<Rightarrow> num \<Rightarrow> real option" where
  "max_step m v =
     (case v of
        NaN \<Rightarrow> m
      | Fin x \<Rightarrow> (case m of None \<Rightarrow> Some x | Some m' \<Rightarrow> if m' < x then Some x else Some m'))"

definition d3_max :: "num list \<Rightarrow> real option" where
  "d3_max vs = foldl max_step None vs"

subsection \<open>d3-scale: ordinal scales\<close>

text \<open>
  An ordinal scale holds a domain without duplicates and a range. \<open>index_of\<close> is the
  scale's index map: the position of a value in the domain.
\<close>

fun index_of :: "string list \<Rightarrow> string \<Rightarrow> nat option" where
  "index_of [] d = None"
| "index_of (x # xs) d = (if x = d then Some 0 else map_option Suc (index_of xs d))"

text \<open>\<open>scale.domain(values)\<close>: values already present are skipped, the first occurrence wins.\<close>

definition domain_push :: "string list \<Rightarrow> string \<Rightarrow> string list" where
  "domain_push ds v = (if index_of ds v \<noteq> None then ds else ds @ [v])"

definition set_domain :: "string list \<Rightarrow> string list" where
  "set_domain vs = foldl domain_push [] vs"

text \<open>\<open>range[i % range.length]\<close>; with an empty range the read is \<open>undefined\<close>.\<close>

definition range_at :: "'a list \<Rightarrow> nat \<Rightarrow> 'a option" where
  "range_at r i = (if r = [] then None else Some (r ! (i mod length r)))"

record ordinal =
  o_domain :: "string list"
  o_range :: "string list"

text \<open>
  Calling an ordinal scale whose unknown value is the default (implicit): a value outside
  the domain is appended to the domain, so the call returns a range element and changes
  the scale.
\<close>

definition ordinal_call :: "ordinal \<Rightarrow> string \<Rightarrow> string option \<times> ordinal" where
  "ordinal_call sc d =
     (case index_of (o_domain sc) d of
        Some i \<Rightarrow> (range_at (o_range sc) i, sc)
      | None \<Rightarrow> (range_at (o_range sc) (length (o_domain sc)),
                 sc\<lparr>o_domain := o_domain sc @ [d]\<rparr>))"

subsection \<open>d3-scale: band scales\<close>

record band =
  b_domain :: "string list"
  b_range :: "real \<times> real"
  paddingInner :: real
  paddingOuter :: real
  align :: real
  b_round :: bool

definition scaleBand :: band where
  "scaleBand = \<lparr>b_domain = [], b_range = (0, 1), paddingInner = 0, paddingOuter = 0,
                 align = 1 / 2, b_round = False\<rparr>"

definition band_padding :: "real \<Rightarrow> band \<Rightarrow> band" where
  "band_padding p sc = sc\<lparr>paddingOuter := p, paddingInner := min 1 p\<rparr>"

definition band_step :: "band \<Rightarrow> real" where
  "band_step sc =
     (let n = real (length (b_domain sc));
          (r0, r1) = b_range sc;
          start = (if r1 < r0 then r1 else r0);
          stop = (if r1 < r0 then r0 else r1);
          step = (stop - start) / max 1 (n - paddingInner sc + paddingOuter sc * 2)
      in if b_round sc then real_of_int \<lfloor>step\<rfloor> else step)"

definition band_start :: "band \<Rightarrow> real" where
  "band_start sc =
     (let n = real (length (b_domain sc));
          (r0, r1) = b_range sc;
          start = (if r1 < r0 then r1 else r0);
          stop = (if r1 < r0 then r0 else r1);
          start' = start + (stop - start - band_step sc * (n - paddingInner sc)) * align sc
      in if b_round sc then real_of_int \<lfloor>start' + 1 / 2\<rfloor> else start')"

definition bandwidth :: "band \<Rightarrow> real" where
  "bandwidth sc =
     (let bw = band_step sc * (1 - paddingInner sc)
      in if b_round sc then real_of_int \<lfloor>bw + 1 / 2\<rfloor> else bw)"

definition band_values :: "band \<Rightarrow> real list" where
  "band_values sc =
     (let values = map (\<lambda>i. band_start sc + band_step sc * real i) [0..<length (b_domain sc)]
      in if snd (b_range sc) < fst (b_range sc) then rev values else values)"

text \<open>A band scale answers \<open>undefined\<close> for a value outside its domain.\<close>

definition band_call :: "band \<Rightarrow> string \<Rightarrow> real option" where
  "band_call sc d =
     (case index_of (b_domain sc) d of
        None \<Rightarrow> None
      | Some i \<Rightarrow> range_at (band_values sc) i)"

subsection \<open>d3-scale: linear scales\<close>

text \<open>
  The domain setter coerces each bound to a number, so a bound can be \<open>NaN\<close>; the range
  the component sets is always two numbers.
\<close>

record linear =
  l_domain :: "num \<times> num"
  l_range :: "real \<times> real"

definition scaleLinear :: linear where
  "scaleLinear = \<lparr>l_domain = (Fin 0, Fin 1), l_range = (0, 1)\<rparr>"

text \<open>
  \<open>nice()\<close> widens the domain to multiples of a tick increment. The increment comes from
  d3-array's \<open>tickIncrement(start, stop, count)\<close>, which is computed with floating-point
  logarithms and square roots; it is the parameter \<open>ti\<close> here, and what is proved below
  holds for every such function. The loop runs at most ten times; when it stops without
  meeting the same increment twice the domain is left as it was (\<open>None\<close>). With a bound
  that is \<open>NaN\<close> every comparison of the loop is false and the domain is left as it was.
  The arithmetic is exact: where the library's doubles round a quotient up or down across
  an integer, the library's bound can be one increment further out than the bound here.
\<close>

fun nice_loop :: "(real \<Rightarrow> real \<Rightarrow> real \<Rightarrow> real) \<Rightarrow> nat \<Rightarrow> real \<Rightarrow> real \<Rightarrow> real option
                  \<Rightarrow> (real \<times> real) option" where
  "nice_loop ti 0 start stop prestep = None"
| "nice_loop ti (Suc maxIter) start stop prestep =
     (let step = ti start stop 10 in
      if prestep = Some step then Some (start, stop)
      else if step > 0 then
        nice_loop ti maxIter (real_of_int \<lfloor>start / step\<rfloor> * step)
          (real_of_int \<lceil>stop / step\<rceil> * step) (Some step)
      else if step < 0 then
        nice_loop ti maxIter (real_of_int \<lceil>start * step\<rceil> / step)
          (real_of_int \<lfloor>stop * step\<rfloor> / step) (Some step)
      else None)"

definition nice :: "(real \<Rightarrow> real \<Rightarrow> real \<Rightarrow> real) \<Rightarrow> linear \<Rightarrow> linear" where
  "nice ti sc =
     (case l_domain sc of
        (Fin d0, Fin d1) \<Rightarrow>
          (if d1 < d0 then
             (case nice_loop ti 10 d1 d0 None of
                None \<Rightarrow> sc
              | Some (start, stop) \<Rightarrow> sc\<lparr>l_domain := (Fin stop, Fin start)\<rparr>)
           else
             (case nice_loop ti 10 d0 d1 None of
                None \<Rightarrow> sc
              | Some (start, stop) \<Rightarrow> sc\<lparr>l_domain := (Fin start, Fin stop)\<rparr>))
      | (Fin d0, NaN) \<Rightarrow> sc
      | (NaN, d1) \<Rightarrow> sc)"

text \<open>
  The increment d3-array computes for a positive step, in exact arithmetic (the retry for
  a count below two does not apply to the count of ten). For a step that is not positive
  the library's floating-point result is infinite or not a number and \<open>nice\<close> leaves
  the domain as it was; the increment \<open>0\<close> has that effect here.
\<close>

definition tickIncrement :: "real \<Rightarrow> real \<Rightarrow> real \<Rightarrow> real" where
  "tickIncrement start stop count =
     (let step = (stop - start) / max 0 count in
      if step \<le> 0 then 0
      else
        (let power = \<lfloor>log 10 step\<rfloor>;
             error = (if power < 0 then step * 10 ^ nat (- power) else step / 10 ^ nat power);
             factor = (if error \<ge> sqrt 50 then 10 else if error \<ge> sqrt 10 then 5
                       else if error \<ge> sqrt 2 then 2 else 1)
         in if power < 0 then - (10 ^ nat (- power) / factor) else 10 ^ nat power * factor))"

text \<open>
  Applying a linear scale: an input that is \<open>NaN\<close> gets the scale's unknown value,
  \<open>undefined\<close>. Any other input is normalised against the domain and interpolated over
  the range. A domain of width zero normalises every input to \<open>1/2\<close>, a domain with a
  bound that is \<open>NaN\<close> normalises every input to \<open>NaN\<close>.
\<close>

definition normalize :: "real \<Rightarrow> real \<Rightarrow> real \<Rightarrow> real" where
  "normalize a b x = (if b - a \<noteq> 0 then (x - a) / (b - a) else 1 / 2)"

definition interpolateNumber :: "real \<Rightarrow> real \<Rightarrow> real \<Rightarrow> real" where
  "interpolateNumber a b t = a * (1 - t) + b * t"

definition linear_call :: "linear \<Rightarrow> num \<Rightarrow> num option" where
  "linear_call sc x =
     (case x of
        NaN \<Rightarrow> None
      | Fin v \<Rightarrow>
          Some (case l_domain sc of
                  (Fin d0, Fin d1) \<Rightarrow>
                    (let (r0, r1) = l_range sc in
                     if d1 < d0 then Fin (interpolateNumber r1 r0 (normalize d1 d0 v))
                     else Fin (interpolateNumber r0 r1 (normalize d0 d1 v)))
                | (Fin d0, NaN) \<Rightarrow> NaN
                | (NaN, d1) \<Rightarrow> NaN))"

section \<open>The drawing surface\<close>

text \<open>
  What D3 appends to the container is kept as a tree. An attribute value is a number,
  \<open>NaN\<close>, a string or a transform; \<open>Num r\<close> as text content stands for the decimal
  rendering of \<open>r\<close>. An element's attributes are listed in the order they were set. The
  tick marks that \<open>axisBottom\<close> and \<open>axisLeft\<close> generate are not spelled
  out: an axis node records the scale it is generated from, and for the bottom axis the
  style and the attributes the component then sets on the tick labels.
\<close>

datatype val = Num real | NotANumber | Str string | Translate real real | Rotate real

fun num_val :: "num \<Rightarrow> val" where
  "num_val (Fin r) = Num r"
| "num_val NaN = NotANumber"

text \<open>
  \<open>selection.attr(name, value)\<close> with a value that is \<open>undefined\<close> removes the attribute,
  so the element is left without it.
\<close>

definition opt_attr :: "string \<Rightarrow> val option \<Rightarrow> (string \<times> val) list" where
  "opt_attr k v = (case v of None \<Rightarrow> [] | Some w \<Rightarrow> [(k, w)])"

datatype node =
    Elem string "(string \<times> val) list" "node list"
  | TextElem "(string \<times> val) list" val
  | AxisBottom band "(string \<times> val) list"
  | AxisLeft linear nat

record container =
  clientWidth :: nat
  clientHeight :: nat
  innerHTML :: "node list"

text \<open>Reading an attribute, and \<open>selectAll("tag.class")\<close> over a tree, in document order.\<close>

fun attr :: "node \<Rightarrow> string \<Rightarrow> val option" where
  "attr (Elem tag attrs kids) k = map_of attrs k"
| "attr (TextElem attrs txt) k = map_of attrs k"
| "attr (AxisBottom x attrs) k = None"
| "attr (AxisLeft y n) k = None"

fun selectAll :: "string \<Rightarrow> string \<Rightarrow> node \<Rightarrow> node list" where
  "selectAll tag cls (Elem t attrs kids) =
     (if t = tag \<and> map_of attrs ''class'' = Some (Str cls) then [Elem t attrs kids] else [])
       @ concat (map (selectAll tag cls) kids)"
| "selectAll tag cls (TextElem attrs txt) =
     (if tag = ''text'' \<and> map_of attrs ''class'' = Some (Str cls) then [TextElem attrs txt]
      else [])"
| "selectAll tag cls (AxisBottom x attrs) = []"
| "selectAll tag cls (AxisLeft y n) = []"

section \<open>The render effect\<close>

definition margin_top :: real where "margin_top = 70"
definition margin_right :: real where "margin_right = 60"
definition margin_bottom :: real where "margin_bottom = 80"
definition margin_left :: real where "margin_left = 100"

definition inner_width :: "real \<Rightarrow> real" where
  "inner_width width = width - margin_left - margin_right"

definition inner_height :: "real \<Rightarrow> real" where
  "inner_height height = height - margin_top - margin_bottom"

definition diets :: "string list" where
  "diets = [''Herbivore'', ''Carnivore'', ''Omnivore'']"

definition x_scale :: "real \<Rightarrow> AnimalDatum list \<Rightarrow> band" where
  "x_scale innerWidth animalData =
     band_padding (2 / 10)
       (scaleBand\<lparr>b_domain := set_domain (map name animalData), b_range := (0, innerWidth)\<rparr>)"

text \<open>
  The component asserts that the maximum is defined (\<open>max(...)!\<close>), which checks nothing
  at run time: an undefined maximum goes into the domain setter and becomes \<open>NaN\<close>.
\<close>

definition y_scale :: "(real \<Rightarrow> real \<Rightarrow> real \<Rightarrow> real) \<Rightarrow> real \<Rightarrow> AnimalDatum list \<Rightarrow> linear" where
  "y_scale ti innerHeight animalData =
     (let m = (case d3_max (map speed animalData) of None \<Rightarrow> NaN | Some v \<Rightarrow> Fin v)
      in (nice ti (scaleLinear\<lparr>l_domain := (Fin 0, m)\<rparr>))\<lparr>l_range := (innerHeight, 0)\<rparr>)"

text \<open>The state of an ordinal scale after it has been called on each of \<open>ds\<close> in turn.\<close>

definition ordinal_calls :: "ordinal \<Rightarrow> string list \<Rightarrow> ordinal" where
  "ordinal_calls sc ds = foldl (\<lambda>sc' d. snd (ordinal_call sc' d)) sc ds"

definition color_scale :: ordinal where
  "color_scale = \<lparr>o_domain = set_domain [''Herbivore'', ''Carnivore'', ''Omnivore''],
                    o_range = [''#5AA469'', ''#C75C5C'', ''#4D96FF'']\<rparr>"

text \<open>
  What every state of the colour scale keeps, whatever it is called on: the three diets
  lead the domain and the range is the three colours.
\<close>

definition color_inv :: "ordinal \<Rightarrow> bool" where
  "color_inv sc =
     ((\<exists>rest. o_domain sc = [''Herbivore'', ''Carnivore'', ''Omnivore''] @ rest)
      \<and> o_range sc = [''#5AA469'', ''#C75C5C'', ''#4D96FF''])"

text \<open>
  One bar: the position is asserted to be defined (\<open>x(d.name)!\<close>), which checks nothing
  at run time, so an undefined position or an undefined \<open>y(d.speed)\<close> leaves the bar
  without that attribute, and the height computed from an undefined \<open>y(d.speed)\<close> is
  \<open>NaN\<close>.
\<close>

definition bar :: "band \<Rightarrow> linear \<Rightarrow> real \<Rightarrow> string option \<Rightarrow> AnimalDatum \<Rightarrow> node" where
  "bar x y innerHeight fill d =
     Elem ''rect''
       ([(''class'', Str ''bar'')]
          @ opt_attr ''x'' (map_option Num (band_call x (name d)))
          @ opt_attr ''y'' (map_option num_val (linear_call y (speed d)))
          @ [(''width'', Num (bandwidth x)),
             (''height'', num_val (js_sub (Fin innerHeight) (to_number (linear_call y (speed d)))))]
          @ opt_attr ''fill'' (map_option Str fill)) []"

text \<open>
  One bar per row, in the order of the rows. The colour scale is called once per row and
  is threaded through, since a call can extend its domain.
\<close>

fun bars :: "band \<Rightarrow> linear \<Rightarrow> real \<Rightarrow> ordinal \<Rightarrow> AnimalDatum list \<Rightarrow> node list \<times> ordinal" where
  "bars x y innerHeight color [] = ([], color)"
| "bars x y innerHeight color (d # ds) =
     (let (fill, color1) = ordinal_call color (diet d);
          (rs, color2) = bars x y innerHeight color1 ds
      in (bar x y innerHeight fill d # rs, color2))"

definition bar_label :: "band \<Rightarrow> linear \<Rightarrow> AnimalDatum \<Rightarrow> node" where
  "bar_label x y d =
     TextElem
       [(''class'', Str ''bar-label''),
        (''x'', num_val (js_add (to_number (map_option Fin (band_call x (name d))))
                          (Fin (bandwidth x / 2)))),
        (''y'', num_val (js_sub (to_number (linear_call y (speed d))) (Fin 6))),
        (''text-anchor'', Str ''middle''),
        (''font-size'', Num 12)]
       (num_val (speed d))"

definition bar_labels :: "band \<Rightarrow> linear \<Rightarrow> AnimalDatum list \<Rightarrow> node list" where
  "bar_labels x y animalData = map (bar_label x y) animalData"

definition legend_item :: "nat \<Rightarrow> string option \<Rightarrow> string \<Rightarrow> node" where
  "legend_item i fill d =
     Elem ''g''
       [(''class'', Str ''legend-item''), (''transform'', Translate 0 (real i * 20))]
       [Elem ''rect''
          ([(''width'', Num 14), (''height'', Num 14), (''rx'', Num 2), (''ry'', Num 2)]
             @ opt_attr ''fill'' (map_option Str fill)) [],
        TextElem [(''x'', Num 20), (''y'', Num 11), (''font-size'', Num 12)] (Str d)]"

fun legend_items :: "ordinal \<Rightarrow> nat \<Rightarrow> string list \<Rightarrow> node list \<times> ordinal" where
  "legend_items color i [] = ([], color)"
| "legend_items color i (d # ds) =
     (let (fill, color1) = ordinal_call color d;
          (items, color2) = legend_items color1 (Suc i) ds
      in (legend_item i fill d # items, color2))"

definition legend :: "real \<Rightarrow> ordinal \<Rightarrow> node" where
  "legend innerWidth color =
     Elem ''g'' [(''transform'', Translate (innerWidth - 150) (- 10))]
       (fst (legend_items color 0 diets))"

definition x_axis :: "band \<Rightarrow> real \<Rightarrow> node" where
  "x_axis x innerHeight =
     Elem ''g'' [(''transform'', Translate 0 innerHeight)]
       [AxisBottom x
          [(''text-anchor'', Str ''end''), (''dx'', Str ''-0.4em''), (''dy'', Str ''0.2em''),
           (''transform'', Rotate (- 90))]]"

definition y_axis :: "linear \<Rightarrow> node" where
  "y_axis y = Elem ''g'' [] [AxisLeft y 6]"

definition axis_titles :: "real \<Rightarrow> real \<Rightarrow> node list" where
  "axis_titles innerWidth innerHeight =
     [TextElem
        [(''x'', Num (innerWidth / 2)), (''y'', Num (innerHeight + 50)),
         (''text-anchor'', Str ''middle''), (''font-weight'', Num 600)]
        (Str ''Animal''),
      TextElem
        [(''transform'', Rotate (- 90)), (''x'', Num (- innerHeight / 2)), (''y'', Num (- 60)),
         (''text-anchor'', Str ''middle''), (''font-weight'', Num 600)]
        (Str ''Speed (km/h)'')]"

definition chart_title :: "real \<Rightarrow> node" where
  "chart_title width =
     TextElem
       [(''x'', Num (width / 2)), (''y'', Num (margin_top / 2)),
        (''text-anchor'', Str ''middle''), (''font-size'', Num 18), (''font-weight'', Num 700)]
       (Str ''Animal Speeds by Diet'')"

text \<open>
  The \<open>svg\<close> element as the effect leaves it: the plotting group, appended first, with
  the two axes, the axis titles, the bars, the labels and the legend, and then the title.
\<close>

definition svg_tree :: "real \<Rightarrow> real \<Rightarrow> band \<Rightarrow> linear \<Rightarrow> node list \<Rightarrow> node list \<Rightarrow> ordinal \<Rightarrow> node" where
  "svg_tree width height x y rects labels color =
     Elem ''svg'' [(''width'', Num width), (''height'', Num height)]
       [Elem ''g'' [(''transform'', Translate margin_left margin_top)]
          ([x_axis x (inner_height height), y_axis y]
             @ axis_titles (inner_width width) (inner_height height)
             @ rects @ labels
             @ [legend (inner_width width) color]),
        chart_title width]"

text \<open>
  The part of the effect after the empty-data guard: scales, then the \<open>svg\<close> element with
  the plotting group (axes, axis titles, bars, labels, legend) and the chart title.
\<close>

definition draw_chart :: "(real \<Rightarrow> real \<Rightarrow> real \<Rightarrow> real) \<Rightarrow> real \<Rightarrow> real \<Rightarrow> AnimalDatum list \<Rightarrow> node" where
  "draw_chart ti width height animalData =
     (let innerWidth = inner_width width;
          innerHeight = inner_height height;
          x = x_scale innerWidth animalData;
          y = y_scale ti innerHeight animalData;
          (rects, color1) = bars x y innerHeight color_scale animalData;
          labels = bar_labels x y animalData
      in svg_tree width height x y rects labels color1)"

text \<open>
  The effect itself. \<open>graphRef.current\<close> is the container or \<open>null\<close> (\<open>None\<close>); with no
  container D3 selects nothing and every append is skipped.
\<close>

definition clear :: "container option \<Rightarrow> container option" where
  "clear graphRef = map_option (\<lambda>c. c\<lparr>innerHTML := []\<rparr>) graphRef"

definition chart_width :: "container option \<Rightarrow> real" where
  "chart_width graphRef =
     (let containerWidth = (case graphRef of Some c \<Rightarrow> real (clientWidth c) | None \<Rightarrow> 800)
      in max containerWidth 600)"

definition chart_height :: "container option \<Rightarrow> real" where
  "chart_height graphRef =
     (let containerHeight = (case graphRef of Some c \<Rightarrow> real (clientHeight c) | None \<Rightarrow> 500)
      in max containerHeight 400)"

definition render_effect :: "(real \<Rightarrow> real \<Rightarrow> real \<Rightarrow> real) \<Rightarrow> container option \<Rightarrow> AnimalDatum list
                             \<Rightarrow> container option" where
  "render_effect ti graphRef animalData =
     (let cleared = clear graphRef in
      if length animalData = 0 then cleared
      else
        (let width = chart_width cleared;
             height = chart_height cleared;
             svg = draw_chart ti width height animalData
         in map_option (\<lambda>c. c\<lparr>innerHTML := innerHTML c @ [svg]\<rparr>) cleared))"

text \<open>
  What the container holds after the effect, and what \<open>selectAll\<close> finds there: the bars
  and the entries of the legend.
\<close>

definition rendered :: "container option \<Rightarrow> node list" where
  "rendered r = (case r of None \<Rightarrow> [] | Some c \<Rightarrow> innerHTML c)"

definition drawn_bars :: "node list \<Rightarrow> node list" where
  "drawn_bars ns = concat (map (selectAll ''rect'' ''bar'') ns)"

definition legend_entries :: "node list \<Rightarrow> node list" where
  "legend_entries ns = concat (map (selectAll ''g'' ''legend-item'') ns)"

section \<open>The component's life cycle\<close>

text \<open>
  The state of one mounted \<open>AnimalSpeedGraph\<close>: the dataset, the container behind
  \<open>graphRef\<close>, the \<open>cancelled\<close> flag of the load effect, and whether the CSV fetch is
  still in flight. The other fields record what an observer sees: every call of the state
  setter \<open>setAnimalData\<close> with its argument, every \<open>console.log\<close> (the number of rows
  whose keys are printed), a promise rejection that no handler took, and an exception
  escaping the render effect (no step of the effect raises one, so nothing sets it).
\<close>

datatype 'a settled = Fulfilled 'a | Rejected string

record view =
  animalData :: "AnimalDatum list"
  graphRef :: "container option"
  cancelled :: bool
  fetchPending :: bool
  setterCalls :: "AnimalDatum list list"
  console :: "nat list"
  unhandledRejection :: "string option"
  renderError :: "string option"

text \<open>The render effect, run by React after a commit that changed \<open>animalData\<close>.\<close>

definition run_render :: "(real \<Rightarrow> real \<Rightarrow> real \<Rightarrow> real) \<Rightarrow> view \<Rightarrow> view" where
  "run_render ti st = st\<lparr>graphRef := render_effect ti (graphRef st) (animalData st)\<rparr>"

definition setAnimalData :: "(real \<Rightarrow> real \<Rightarrow> real \<Rightarrow> real) \<Rightarrow> AnimalDatum list \<Rightarrow> view \<Rightarrow> view" where
  "setAnimalData ti rows st =
     run_render ti (st\<lparr>setterCalls := setterCalls st @ [rows], animalData := rows\<rparr>)"

text \<open>The callback passed to \<open>then\<close>: \<open>if (!cancelled) setAnimalData(rows); console.log(...)\<close>.\<close>

definition then_callback :: "(real \<Rightarrow> real \<Rightarrow> real \<Rightarrow> real) \<Rightarrow> AnimalDatum list \<Rightarrow> view \<Rightarrow> view" where
  "then_callback ti rows st =
     (let st1 = (if \<not> cancelled st then setAnimalData ti rows st else st)
      in st1\<lparr>console := console st1 @ [length rows]\<rparr>)"

text \<open>
  \<open>p.then(f)\<close> with one argument: \<open>f\<close> runs when \<open>p\<close> is fulfilled; when \<open>p\<close> is rejected
  \<open>f\<close> does not run and the promise that \<open>then\<close> returns is rejected with the same
  reason.
\<close>

definition promise_then :: "'a settled \<Rightarrow> ('a \<Rightarrow> 's \<Rightarrow> 's) \<Rightarrow> 's \<Rightarrow> unit settled \<times> 's" where
  "promise_then p onFulfilled st =
     (case p of
        Fulfilled v \<Rightarrow> (Fulfilled (), onFulfilled v st)
      | Rejected reason \<Rightarrow> (Rejected reason, st))"

text \<open>
  The load effect is \<open>csv(...).then(callback)\<close> and nothing more: the promise returned by
  \<open>then\<close> is dropped, so when it is rejected the rejection stays unhandled.
\<close>

definition fetch_settles :: "(real \<Rightarrow> real \<Rightarrow> real \<Rightarrow> real) \<Rightarrow> AnimalDatum list settled \<Rightarrow> view \<Rightarrow> view" where
  "fetch_settles ti p st =
     (let (q, st1) = promise_then p (then_callback ti) (st\<lparr>fetchPending := False\<rparr>)
      in case q of
           Fulfilled u \<Rightarrow> st1
         | Rejected reason \<Rightarrow> st1\<lparr>unhandledRejection := Some reason\<rparr>)"

text \<open>
  Mounting: the state starts with the empty dataset, the load effect starts the fetch
  with \<open>cancelled = false\<close>, and the render effect runs once on the empty dataset.
\<close>

definition mount :: "(real \<Rightarrow> real \<Rightarrow> real \<Rightarrow> real) \<Rightarrow> container \<Rightarrow> view" where
  "mount ti c =
     run_render ti
       \<lparr>animalData = [], graphRef = Some c, cancelled = False, fetchPending = True,
        setterCalls = [], console = [], unhandledRejection = None, renderError = None\<rparr>"

text \<open>
  What can happen to a mounted view: the fetch settles (a promise settles once, a
  second settlement is ignored), or the view unmounts, which runs the load effect's
  cleanup \<open>cancelled = true\<close> and detaches the container.
\<close>

datatype event = FetchSettles "AnimalDatum list settled" | Unmount

fun step :: "(real \<Rightarrow> real \<Rightarrow> real \<Rightarrow> real) \<Rightarrow> view \<Rightarrow> event \<Rightarrow> view" where
  "step ti st (FetchSettles p) = (if fetchPending st then fetch_settles ti p st else st)"
| "step ti st Unmount = st\<lparr>cancelled := True, graphRef := None\<rparr>"

definition run :: "(real \<Rightarrow> real \<Rightarrow> real \<Rightarrow> real) \<Rightarrow> view \<Rightarrow> event list \<Rightarrow> view" where
  "run ti st evs = foldl (step ti) st evs"

text \<open>A load failure is caught when no rejection is left without a handler.\<close>

definition caught :: "view \<Rightarrow> bool" where
  "caught st = (unhandledRejection st = None)"

definition chart_drawn :: "view \<Rightarrow> bool" where
  "chart_drawn st = (case graphRef st of None \<Rightarrow> False | Some c \<Rightarrow> innerHTML c \<noteq> [])"

section \<open>The species details dialog\<close>

text \<open>
  The row type \<open>Species\<close> comes from the database schema, which is not among the sources;
  the record has the fields the dialog reads. The dialog's own state is whether it is
  open and whether the form is in editing mode.
\<close>

record Species =
  species_id :: int
  scientific_name :: string
  common_name :: "string option"
  author :: string

record dialog =
  dialog_open :: bool
  isEditing :: bool

datatype button = LearnMore | UpdateSpecies | Cancel | EditSpecies | Close

text \<open>
  The handlers that change the dialog's state. A button can be clicked only while it is
  shown; \<open>onSubmit\<close> leaves editing mode when the update succeeded, whatever the dialog
  shows by then.
\<close>

datatype dialog_event = Click button | OpenChange bool | SubmitResult bool

definition isAuthor :: "string \<Rightarrow> Species \<Rightarrow> bool" where
  "isAuthor userId species = (userId = author species)"

text \<open>The action buttons of view mode: \<open>{isAuthor && <Button>Edit Species</Button>}\<close>, then Close.\<close>

definition action_buttons :: "string \<Rightarrow> Species \<Rightarrow> button list" where
  "action_buttons userId species =
     (if isAuthor userId species then [EditSpecies] else []) @ [Close]"

text \<open>
  All buttons the dialog shows: the trigger always, and the content only while the
  dialog is open, as the form (editing) or as the details with the action buttons.
\<close>

definition dialog_buttons :: "dialog \<Rightarrow> string \<Rightarrow> Species \<Rightarrow> button list" where
  "dialog_buttons st userId species =
     LearnMore #
       (if dialog_open st then
          (if isEditing st then [UpdateSpecies, Cancel] else action_buttons userId species)
        else [])"

fun dialog_step :: "string \<Rightarrow> Species \<Rightarrow> dialog \<Rightarrow> dialog_event \<Rightarrow> dialog" where
  "dialog_step userId species st (OpenChange b) = st\<lparr>dialog_open := b\<rparr>"
| "dialog_step userId species st (SubmitResult ok) =
     (if ok then st\<lparr>isEditing := False\<rparr> else st)"
| "dialog_step userId species st (Click b) =
     (if b \<notin> set (dialog_buttons st userId species) then st
      else if b = EditSpecies then st\<lparr>isEditing := True\<rparr>
      else if b = Cancel then st\<lparr>isEditing := False\<rparr>
      else st)"

section \<open>Concrete inputs\<close>

definition cheetah :: AnimalDatum where
  "cheetah = \<lparr>name = ''Cheetah'', speed = Fin 120, diet = ''Carnivore''\<rparr>"

definition elephant :: AnimalDatum where
  "elephant = \<lparr>name = ''Elephant'', speed = Fin 40, diet = ''Herbivore''\<rparr>"

definition pronghorn :: AnimalDatum where
  "pronghorn = \<lparr>name = ''Pronghorn'', speed = Fin 88, diet = ''Herbivore''\<rparr>"

definition sloth :: AnimalDatum where
  "sloth = \<lparr>name = ''Sloth'', speed = Fin 0, diet = ''Herbivore''\<rparr>"

text \<open>A row whose speed cell is not a number and whose diet is none of the three.\<close>

definition dragon :: AnimalDatum where
  "dragon = \<lparr>name = ''Dragon'', speed = NaN, diet = ''Unknown''\<rparr>"

definition container0 :: container where
  "container0 = \<lparr>clientWidth = 800, clientHeight = 500, innerHTML = []\<rparr>"

section \<open>Facts about the D3 functions\<close>

lemma foldl_max_step_Some:
  "\<exists>m. foldl max_step (Some a) vs = Some m \<and> a \<le> m"
proof (induction vs arbitrary: a)
  case Nil
  then show ?case by simp
next
  case (Cons v vs)
  show ?case
  proof (cases v)
    case (Fin x)
    then have "max_step (Some a) v = Some (max a x)"
      by (simp add: max_step_def max_def)
    then show ?thesis
      using Cons.IH [of "max a x"] by auto
  next
    case NaN
    then have "max_step (Some a) v = Some a"
      by (simp add: max_step_def)
    then show ?thesis
      using Cons.IH [of a] by auto
  qed
qed

lemma d3_max_defined:
  assumes "Fin x \<in> set vs"
  shows "\<exists>m. d3_max vs = Some m"
  using assms
proof (induction vs)
  case Nil
  then show ?case by simp
next
  case (Cons v vs)
  show ?case
  proof (cases v)
    case (Fin y)
    then have "d3_max (v # vs) = foldl max_step (Some y) vs"
      by (simp add: d3_max_def max_step_def)
    then show ?thesis
      using foldl_max_step_Some [of y vs] by auto
  next
    case NaN
    then have "d3_max (v # vs) = d3_max vs"
      by (simp add: d3_max_def max_step_def)
    then show ?thesis
      using Cons NaN by auto
  qed
qed

lemma index_of_None: "(index_of ds d = None) = (d \<notin> set ds)"
  by (induction ds) auto

lemma index_of_nth_distinct:
  "distinct ds \<Longrightarrow> i < length ds \<Longrightarrow> index_of ds (ds ! i) = Some i"
proof (induction ds arbitrary: i)
  case Nil
  then show ?case by simp
next
  case (Cons x xs)
  show ?case
  proof (cases i)
    case 0
    then show ?thesis by simp
  next
    case (Suc j)
    then have "xs ! j \<noteq> x" "index_of xs (xs ! j) = Some j"
      using Cons by auto
    then show ?thesis using Suc by simp
  qed
qed

lemma index_of_append_left:
  "index_of ds d = Some i \<Longrightarrow> index_of (ds @ es) d = Some i"
  by (induction ds arbitrary: i) (auto split: if_splits)

lemma foldl_domain_push_set:
  "set (foldl domain_push acc vs) = set acc \<union> set vs"
  by (induction vs arbitrary: acc) (auto simp: domain_push_def index_of_None)

lemma foldl_domain_push_distinct:
  "distinct acc \<Longrightarrow> distinct (foldl domain_push acc vs)"
  by (induction vs arbitrary: acc) (auto simp: domain_push_def index_of_None)

lemma foldl_domain_push_id:
  "distinct (acc @ vs) \<Longrightarrow> foldl domain_push acc vs = acc @ vs"
proof (induction vs arbitrary: acc)
  case Nil
  then show ?case by simp
next
  case (Cons v vs)
  have "domain_push acc v = acc @ [v]"
    using Cons.prems by (simp add: domain_push_def index_of_None)
  then show ?case
    using Cons.IH [of "acc @ [v]"] Cons.prems by simp
qed

lemma set_domain_set: "set (set_domain vs) = set vs"
  by (simp add: set_domain_def foldl_domain_push_set)

lemma set_domain_distinct: "distinct vs \<Longrightarrow> set_domain vs = vs"
  using foldl_domain_push_id [of "[]" vs] by (simp add: set_domain_def)

lemma x_scale_fields:
  "b_domain (x_scale W ds) = set_domain (map name ds) \<and> b_range (x_scale W ds) = (0, W)
   \<and> paddingInner (x_scale W ds) = 2 / 10 \<and> paddingOuter (x_scale W ds) = 2 / 10
   \<and> align (x_scale W ds) = 1 / 2 \<and> \<not> b_round (x_scale W ds)"
  by (simp add: x_scale_def band_padding_def scaleBand_def)

lemma length_band_values: "length (band_values sc) = length (b_domain sc)"
  by (simp add: band_values_def Let_def)

lemma band_call_defined:
  assumes "d \<in> set (b_domain sc)"
  shows "\<exists>v. band_call sc d = Some v"
proof -
  obtain i where i: "index_of (b_domain sc) d = Some i"
    using assms index_of_None [of "b_domain sc" d] by (cases "index_of (b_domain sc) d") auto
  have "band_values sc \<noteq> []"
    using assms length_band_values [of sc] by (cases "band_values sc") auto
  then show ?thesis
    by (simp add: band_call_def i range_at_def)
qed

lemma x_scale_defined:
  "d \<in> set ds \<Longrightarrow> \<exists>v. band_call (x_scale W ds) (name d) = Some v"
  by (rule band_call_defined) (simp add: x_scale_fields set_domain_set)

lemma nice_finite:
  assumes "l_domain sc = (Fin a, Fin b)"
  shows "\<exists>a' b'. l_domain (nice ti sc) = (Fin a', Fin b')"
  using assms by (auto simp: nice_def split: prod.splits option.splits)

lemma y_scale_finite:
  assumes "d3_max (map speed ds) = Some m"
  shows "\<exists>d0 d1. y_scale ti ih ds = \<lparr>l_domain = (Fin d0, Fin d1), l_range = (ih, 0)\<rparr>"
proof -
  define sc where "sc = scaleLinear\<lparr>l_domain := (Fin 0, Fin m)\<rparr>"
  obtain d0 d1 where d: "l_domain (nice ti sc) = (Fin d0, Fin d1)"
    using nice_finite [of sc 0 m ti] by (auto simp: sc_def)
  have "(nice ti sc)\<lparr>l_range := (ih, 0)\<rparr> = \<lparr>l_domain = (Fin d0, Fin d1), l_range = (ih, 0)\<rparr>"
    using d by (cases "nice ti sc") simp
  then have "y_scale ti ih ds = \<lparr>l_domain = (Fin d0, Fin d1), l_range = (ih, 0)\<rparr>"
    using assms by (simp add: y_scale_def sc_def)
  then show ?thesis
    by blast
qed

lemma linear_call_finite:
  "\<exists>v. linear_call \<lparr>l_domain = (Fin d0, Fin d1), l_range = r\<rparr> (Fin s) = Some (Fin v)"
  by (cases r) (simp add: linear_call_def)

lemma y_scale_undefined:
  assumes "d3_max (map speed ds) = None"
  shows "y_scale ti ih ds = \<lparr>l_domain = (Fin 0, NaN), l_range = (ih, 0)\<rparr>"
  using assms by (simp add: y_scale_def nice_def scaleLinear_def)

section \<open>Facts about the render effect\<close>

lemma ordinal_calls_Cons:
  "ordinal_calls sc (d # ds) = ordinal_calls (snd (ordinal_call sc d)) ds"
  by (simp add: ordinal_calls_def)

lemma color_scale_fields:
  "o_domain color_scale = [''Herbivore'', ''Carnivore'', ''Omnivore'']
   \<and> o_range color_scale = [''#5AA469'', ''#C75C5C'', ''#4D96FF'']"
  by (simp add: color_scale_def set_domain_def domain_push_def)

lemma color_inv_call:
  assumes "color_inv sc"
  shows "color_inv (snd (ordinal_call sc d))"
proof -
  obtain rest where d: "o_domain sc = [''Herbivore'', ''Carnivore'', ''Omnivore''] @ rest"
    and r: "o_range sc = [''#5AA469'', ''#C75C5C'', ''#4D96FF'']"
    using assms by (auto simp: color_inv_def)
  show ?thesis
  proof (cases "index_of (o_domain sc) d")
    case None
    then have "snd (ordinal_call sc d) = sc\<lparr>o_domain := o_domain sc @ [d]\<rparr>"
      by (simp add: ordinal_call_def)
    then show ?thesis
      by (simp add: color_inv_def d r)
  next
    case (Some i)
    then have "snd (ordinal_call sc d) = sc"
      by (simp add: ordinal_call_def)
    then show ?thesis using assms by simp
  qed
qed

lemma color_inv_calls: "color_inv sc \<Longrightarrow> color_inv (ordinal_calls sc ds)"
  by (induction ds arbitrary: sc) (simp_all add: ordinal_calls_def color_inv_call)

lemma color_inv_start: "color_inv color_scale"
  by (simp add: color_inv_def color_scale_fields)

lemma color_inv_defined:
  assumes "color_inv sc"
  shows "\<exists>c. fst (ordinal_call sc d) = Some c \<and> c \<in> set [''#5AA469'', ''#C75C5C'', ''#4D96FF'']"
proof -
  have r: "o_range sc = [''#5AA469'', ''#C75C5C'', ''#4D96FF'']"
    using assms by (simp add: color_inv_def)
  have "\<exists>c. range_at (o_range sc) i = Some c \<and> c \<in> set (o_range sc)" for i
  proof -
    have "i mod length (o_range sc) < length (o_range sc)"
      by (simp add: r)
    then have "o_range sc ! (i mod length (o_range sc)) \<in> set (o_range sc)"
      by (rule nth_mem)
    moreover have "o_range sc \<noteq> []"
      by (simp add: r)
    ultimately show ?thesis
      by (simp add: range_at_def)
  qed
  then show ?thesis
    unfolding r [symmetric] by (auto simp: ordinal_call_def split: option.splits)
qed

lemma color_inv_diets:
  assumes "color_inv sc"
  shows "ordinal_call sc ''Herbivore'' = (Some ''#5AA469'', sc)
         \<and> ordinal_call sc ''Carnivore'' = (Some ''#C75C5C'', sc)
         \<and> ordinal_call sc ''Omnivore'' = (Some ''#4D96FF'', sc)"
proof -
  obtain rest where d: "o_domain sc = [''Herbivore'', ''Carnivore'', ''Omnivore''] @ rest"
    using assms by (auto simp: color_inv_def)
  have r: "o_range sc = [''#5AA469'', ''#C75C5C'', ''#4D96FF'']"
    using assms by (simp add: color_inv_def)
  show ?thesis
    by (simp add: ordinal_call_def d r range_at_def)
qed


lemma legend_items_fixed:
  assumes "color_inv sc"
  shows "legend_items sc 0 diets
           = ([Elem ''g'' [(''class'', Str ''legend-item''), (''transform'', Translate 0 0)]
                 [Elem ''rect''
                    [(''width'', Num 14), (''height'', Num 14), (''rx'', Num 2), (''ry'', Num 2),
                     (''fill'', Str ''#5AA469'')] [],
                  TextElem [(''x'', Num 20), (''y'', Num 11), (''font-size'', Num 12)]
                    (Str ''Herbivore'')],
               Elem ''g'' [(''class'', Str ''legend-item''), (''transform'', Translate 0 20)]
                 [Elem ''rect''
                    [(''width'', Num 14), (''height'', Num 14), (''rx'', Num 2), (''ry'', Num 2),
                     (''fill'', Str ''#C75C5C'')] [],
                  TextElem [(''x'', Num 20), (''y'', Num 11), (''font-size'', Num 12)]
                    (Str ''Carnivore'')],
               Elem ''g'' [(''class'', Str ''legend-item''), (''transform'', Translate 0 40)]
                 [Elem ''rect''
                    [(''width'', Num 14), (''height'', Num 14), (''rx'', Num 2), (''ry'', Num 2),
                     (''fill'', Str ''#4D96FF'')] [],
                  TextElem [(''x'', Num 20), (''y'', Num 11), (''font-size'', Num 12)]
                    (Str ''Omnivore'')]], sc)"
  using color_inv_diets [OF assms]
  by (simp add: diets_def numeral_2_eq_2 legend_item_def opt_attr_def)

lemma bars_Cons:
  "bars x y ih color (d # ds)
     = (bar x y ih (fst (ordinal_call color (diet d))) d
          # fst (bars x y ih (snd (ordinal_call color (diet d))) ds),
        snd (bars x y ih (snd (ordinal_call color (diet d))) ds))"
  by (simp add: split_beta)

lemma bars_snd: "snd (bars x y ih color ds) = ordinal_calls color (map diet ds)"
proof (induction ds arbitrary: color)
  case Nil
  then show ?case by (simp add: ordinal_calls_def)
next
  case (Cons d ds)
  show ?case
    using Cons.IH [of "snd (ordinal_call color (diet d))"]
    by (simp add: bars_Cons ordinal_calls_Cons del: bars.simps)
qed

lemma bars_length: "length (fst (bars x y ih color ds)) = length ds"
proof (induction ds arbitrary: color)
  case Nil
  then show ?case by simp
next
  case (Cons d ds)
  show ?case
    using Cons.IH [of "snd (ordinal_call color (diet d))"]
    by (simp add: bars_Cons del: bars.simps)
qed

lemma bars_nth:
  "i < length ds \<Longrightarrow>
     fst (bars x y ih color ds) ! i
       = bar x y ih (fst (ordinal_call (ordinal_calls color (take i (map diet ds))) (diet (ds ! i))))
           (ds ! i)"
proof (induction ds arbitrary: color i)
  case Nil
  then show ?case by simp
next
  case (Cons d ds)
  show ?case
  proof (cases i)
    case 0
    then show ?thesis
      by (simp add: bars_Cons ordinal_calls_def del: bars.simps)
  next
    case (Suc j)
    then have j: "j < length ds"
      using Cons.prems by simp
    show ?thesis
      using Cons.IH [OF j, of "snd (ordinal_call color (diet d))"] Suc
      by (simp add: bars_Cons ordinal_calls_Cons del: bars.simps)
  qed
qed

lemma ordinal_call_snd:
  "o_domain (snd (ordinal_call sc d)) = domain_push (o_domain sc) d
   \<and> o_range (snd (ordinal_call sc d)) = o_range sc"
  by (cases "index_of (o_domain sc) d") (simp_all add: ordinal_call_def domain_push_def)

lemma ordinal_calls_fields:
  "o_domain (ordinal_calls sc ds) = foldl domain_push (o_domain sc) ds
   \<and> o_range (ordinal_calls sc ds) = o_range sc"
proof (induction ds arbitrary: sc)
  case Nil
  then show ?case by (simp add: ordinal_calls_def)
next
  case (Cons d ds)
  show ?case
    using Cons.IH [of "snd (ordinal_call sc d)"] ordinal_call_snd [of sc d]
    by (simp add: ordinal_calls_Cons)
qed

lemma set_domain_append: "set_domain (as @ bs) = foldl domain_push (set_domain as) bs"
  by (simp add: set_domain_def)

lemma index_of_snoc_new: "d \<notin> set ds \<Longrightarrow> index_of (ds @ [d]) d = Some (length ds)"
  by (induction ds) auto

lemma ordinal_call_fst:
  assumes "index_of (domain_push (o_domain sc) d) d = Some k"
  shows "fst (ordinal_call sc d) = range_at (o_range sc) k"
proof (cases "index_of (o_domain sc) d")
  case None
  then have "d \<notin> set (o_domain sc)"
    by (simp add: index_of_None)
  then have "k = length (o_domain sc)"
    using assms None index_of_snoc_new [of d "o_domain sc"] by (simp add: domain_push_def)
  then show ?thesis
    using None by (simp add: ordinal_call_def)
next
  case (Some i)
  then have "k = i"
    using assms by (simp add: domain_push_def)
  then show ?thesis
    using Some by (simp add: ordinal_call_def)
qed

lemma index_of_domain_push_self: "\<exists>k. index_of (domain_push ds d) d = Some k"
proof (cases "index_of ds d")
  case None
  then have "d \<notin> set ds"
    by (simp add: index_of_None)
  then show ?thesis
    using None index_of_snoc_new [of d ds] by (simp add: domain_push_def)
next
  case (Some i)
  then show ?thesis by (simp add: domain_push_def)
qed

lemma foldl_domain_push_prefix: "\<exists>rest. foldl domain_push acc vs = acc @ rest"
proof (induction vs arbitrary: acc)
  case Nil
  then show ?case by simp
next
  case (Cons v vs)
  obtain rest where r: "foldl domain_push (domain_push acc v) vs = domain_push acc v @ rest"
    using Cons.IH [of "domain_push acc v"] by blast
  obtain e where e: "domain_push acc v = acc @ e"
    by (cases "index_of acc v") (simp_all add: domain_push_def)
  have "foldl domain_push acc (v # vs) = acc @ (e @ rest)"
    using r e by simp
  then show ?case
    by blast
qed

lemma index_of_foldl_stable:
  assumes "index_of acc d = Some k"
  shows "index_of (foldl domain_push acc vs) d = Some k"
proof -
  obtain rest where "foldl domain_push acc vs = acc @ rest"
    using foldl_domain_push_prefix by blast
  then show ?thesis
    using index_of_append_left [OF assms, of rest] by simp
qed

lemma color_fill_closed:
  assumes "i < length dts"
  shows "\<exists>k. index_of (set_domain ([''Herbivore'', ''Carnivore'', ''Omnivore''] @ dts)) (dts ! i) = Some k
             \<and> fst (ordinal_call (ordinal_calls color_scale (take i dts)) (dts ! i))
                 = Some ([''#5AA469'', ''#C75C5C'', ''#4D96FF''] ! (k mod 3))"
proof -
  define sc where "sc = ordinal_calls color_scale (take i dts)"
  define d where "d = dts ! i"
  have dom: "o_domain sc
               = foldl domain_push (set_domain [''Herbivore'', ''Carnivore'', ''Omnivore'']) (take i dts)"
    and rng: "o_range sc = [''#5AA469'', ''#C75C5C'', ''#4D96FF'']"
    using ordinal_calls_fields [of color_scale "take i dts"]
    by (simp_all add: sc_def color_scale_def)
  obtain k where k: "index_of (domain_push (o_domain sc) d) d = Some k"
    using index_of_domain_push_self by blast
  have split: "dts = take i dts @ d # drop (Suc i) dts"
    using assms by (simp add: d_def id_take_nth_drop)
  have "set_domain ([''Herbivore'', ''Carnivore'', ''Omnivore''] @ dts)
          = foldl domain_push (set_domain [''Herbivore'', ''Carnivore'', ''Omnivore''])
              (take i dts @ d # drop (Suc i) dts)"
    using split set_domain_append [of "[''Herbivore'', ''Carnivore'', ''Omnivore'']" dts] by simp
  also have "\<dots> = foldl domain_push (domain_push (o_domain sc) d) (drop (Suc i) dts)"
    by (simp add: dom)
  finally have full: "index_of (set_domain ([''Herbivore'', ''Carnivore'', ''Omnivore''] @ dts)) d = Some k"
    using index_of_foldl_stable [OF k] by simp
  have "fst (ordinal_call sc d) = range_at (o_range sc) k"
    by (rule ordinal_call_fst [OF k])
  then have "fst (ordinal_call sc d) = Some ([''#5AA469'', ''#C75C5C'', ''#4D96FF''] ! (k mod 3))"
    by (simp add: rng range_at_def)
  then show ?thesis
    using full unfolding sc_def d_def by blast
qed

lemma selectAll_bar:
  "selectAll tag cls (bar x y ih f d)
     = (if tag = ''rect'' \<and> cls = ''bar'' then [bar x y ih f d] else [])"
  by (auto simp: bar_def)

lemma selectAll_bar_label:
  "selectAll tag cls (bar_label x y d)
     = (if tag = ''text'' \<and> cls = ''bar-label'' then [bar_label x y d] else [])"
  by (auto simp: bar_label_def)

lemma selectAll_legend_item:
  "selectAll tag cls (legend_item i f d)
     = (if tag = ''g'' \<and> cls = ''legend-item'' then [legend_item i f d] else [])"
  by (cases f) (auto simp: legend_item_def opt_attr_def)

lemma concat_selectAll_all:
  assumes "\<forall>n\<in>set ns. selectAll tag cls n = [n]"
  shows "concat (map (selectAll tag cls) ns) = ns"
  using assms by (induction ns) simp_all

lemma concat_selectAll_none:
  assumes "\<forall>n\<in>set ns. selectAll tag cls n = []"
  shows "concat (map (selectAll tag cls) ns) = []"
  using assms by (induction ns) simp_all

lemma legend_items_shape:
  "\<forall>n\<in>set (fst (legend_items sc i ds)). \<exists>j f d. n = legend_item j f d"
proof (induction ds arbitrary: sc i)
  case Nil
  then show ?case by simp
next
  case (Cons d ds)
  obtain f sc1 where oc: "ordinal_call sc d = (f, sc1)"
    by (cases "ordinal_call sc d")
  obtain items sc2 where li: "legend_items sc1 (Suc i) ds = (items, sc2)"
    by (cases "legend_items sc1 (Suc i) ds")
  have "\<forall>n\<in>set items. \<exists>j f d. n = legend_item j f d"
    using Cons.IH [of sc1 "Suc i"] li by simp
  then show ?case
    by (auto simp: oc li)
qed

lemma bars_shape: "\<forall>r\<in>set (fst (bars x y ih color ds)). \<exists>f d. r = bar x y ih f d"
proof
  fix r assume "r \<in> set (fst (bars x y ih color ds))"
  then obtain i where "i < length ds" "r = fst (bars x y ih color ds) ! i"
    by (auto simp: in_set_conv_nth bars_length)
  then show "\<exists>f d. r = bar x y ih f d"
    using bars_nth [of i ds x y ih color] by blast
qed

lemma draw_chart_eq:
  "draw_chart ti w h ds
     = svg_tree w h (x_scale (inner_width w) ds) (y_scale ti (inner_height h) ds)
         (fst (bars (x_scale (inner_width w) ds) (y_scale ti (inner_height h) ds) (inner_height h)
                 color_scale ds))
         (bar_labels (x_scale (inner_width w) ds) (y_scale ti (inner_height h) ds) ds)
         (ordinal_calls color_scale (map diet ds))"
  using bars_snd [of "x_scale (inner_width w) ds" "y_scale ti (inner_height h) ds" "inner_height h"
      color_scale ds]
  by (simp add: draw_chart_def Let_def split_beta)

lemma render_effect_empty: "render_effect ti g [] = clear g"
  by (simp add: render_effect_def)

lemma render_effect_some:
  assumes "ds \<noteq> []"
  shows "render_effect ti (Some c) ds
           = Some (c\<lparr>innerHTML :=
                      [draw_chart ti (max (real (clientWidth c)) 600) (max (real (clientHeight c)) 400) ds]\<rparr>)"
  using assms by (simp add: render_effect_def clear_def chart_width_def chart_height_def)

lemma render_ignores_content:
  "render_effect ti (map_option (\<lambda>c. c\<lparr>innerHTML := z\<rparr>) g) ds = render_effect ti g ds"
  by (cases g) (simp_all add: render_effect_def clear_def chart_width_def chart_height_def)

lemma render_effect_twice:
  "render_effect ti (render_effect ti g ds) ds = render_effect ti g ds"
proof (cases g)
  case None
  then show ?thesis by (simp add: render_effect_def clear_def)
next
  case (Some c)
  show ?thesis
  proof (cases "ds = []")
    case True
    then show ?thesis by (simp add: render_effect_def clear_def Some)
  next
    case False
    have "render_effect ti (Some c) ds = map_option (\<lambda>c'. c'\<lparr>innerHTML :=
            [draw_chart ti (max (real (clientWidth c)) 600) (max (real (clientHeight c)) 400) ds]\<rparr>) (Some c)"
      by (simp add: render_effect_some [OF False])
    then show ?thesis
      unfolding Some by (simp only: render_ignores_content)
  qed
qed

lemma selectAll_bars_svg:
  assumes "\<forall>r\<in>set rects. \<exists>x' y' ih f d. r = bar x' y' ih f d"
    and "\<forall>l\<in>set labels. \<exists>x' y' d. l = bar_label x' y' d"
  shows "selectAll ''rect'' ''bar'' (svg_tree w h x y rects labels color) = rects"
proof -
  have r: "concat (map (selectAll ''rect'' ''bar'') rects) = rects"
    using assms(1) by (intro concat_selectAll_all) (auto simp: selectAll_bar)
  have l: "concat (map (selectAll ''rect'' ''bar'') labels) = []"
    using assms(2) by (intro concat_selectAll_none) (auto simp: selectAll_bar_label)
  have g: "concat (map (selectAll ''rect'' ''bar'') (fst (legend_items color 0 diets))) = []"
    using legend_items_shape [of color 0 diets]
    by (intro concat_selectAll_none) (auto simp: selectAll_legend_item)
  show ?thesis
    by (simp add: svg_tree_def x_axis_def y_axis_def axis_titles_def legend_def
        chart_title_def r l g)
qed

lemma selectAll_legend_svg:
  assumes "\<forall>r\<in>set rects. \<exists>x' y' ih f d. r = bar x' y' ih f d"
    and "\<forall>l\<in>set labels. \<exists>x' y' d. l = bar_label x' y' d"
  shows "selectAll ''g'' ''legend-item'' (svg_tree w h x y rects labels color)
           = fst (legend_items color 0 diets)"
proof -
  have r: "concat (map (selectAll ''g'' ''legend-item'') rects) = []"
    using assms(1) by (intro concat_selectAll_none) (auto simp: selectAll_bar)
  have l: "concat (map (selectAll ''g'' ''legend-item'') labels) = []"
    using assms(2) by (intro concat_selectAll_none) (auto simp: selectAll_bar_label)
  have g: "concat (map (selectAll ''g'' ''legend-item'') (fst (legend_items color 0 diets)))
             = fst (legend_items color 0 diets)"
    using legend_items_shape [of color 0 diets]
    by (intro concat_selectAll_all) (auto simp: selectAll_legend_item)
  show ?thesis
    by (simp add: svg_tree_def x_axis_def y_axis_def axis_titles_def legend_def
        chart_title_def r l g)
qed

lemma drawn_bars_render:
  assumes "ds \<noteq> []"
  shows "drawn_bars (rendered (render_effect ti (Some c) ds))
           = fst (bars (x_scale (inner_width (max (real (clientWidth c)) 600)) ds)
                   (y_scale ti (inner_height (max (real (clientHeight c)) 400)) ds)
                   (inner_height (max (real (clientHeight c)) 400)) color_scale ds)"
proof -
  have l: "\<forall>l\<in>set (bar_labels x y ds). \<exists>x' y' d. l = bar_label x' y' d" for x y
    by (auto simp: bar_labels_def)
  have b: "\<forall>r\<in>set (fst (bars x y ih color ds)). \<exists>x' y' ih f d. r = bar x' y' ih f d"
    for x y ih color
    using bars_shape [of x y ih color ds] by blast
  show ?thesis
    by (simp add: render_effect_some [OF assms] rendered_def drawn_bars_def draw_chart_eq
        selectAll_bars_svg [OF b l])
qed

lemma legend_entries_render:
  assumes "ds \<noteq> []"
  shows "legend_entries (rendered (render_effect ti (Some c) ds))
           = fst (legend_items (ordinal_calls color_scale (map diet ds)) 0 diets)"
proof -
  have l: "\<forall>l\<in>set (bar_labels x y ds). \<exists>x' y' d. l = bar_label x' y' d" for x y
    by (auto simp: bar_labels_def)
  have b: "\<forall>r\<in>set (fst (bars x y ih color ds)). \<exists>x' y' ih f d. r = bar x' y' ih f d"
    for x y ih color
    using bars_shape [of x y ih color ds] by blast
  show ?thesis
    by (simp add: render_effect_some [OF assms] rendered_def legend_entries_def draw_chart_eq
        selectAll_legend_svg [OF b l])
qed

lemma inner_width_chart: "440 \<le> inner_width (chart_width g)"
  by (simp add: inner_width_def chart_width_def margin_left_def margin_right_def)

section \<open>The scales on the concrete inputs\<close>

lemma tickIncrement_degenerate: "tickIncrement a a 10 = 0"
  by (simp add: tickIncrement_def)

lemma floor_log10_12: "\<lfloor>log 10 (12::real)\<rfloor> = 1"
  by (simp add: floor_log_eq_powr_iff)

lemma floor_log10_9: "\<lfloor>log 10 (9::real)\<rfloor> = 0" "\<lfloor>log 10 ((88::real) / 10)\<rfloor> = 0"
  by (simp_all add: floor_log_eq_powr_iff)

lemma sqrt_bounds:
  "(12::real) / 10 < sqrt 2" "sqrt 2 < sqrt 10" "sqrt 10 < sqrt 50"
  "sqrt 50 \<le> (88::real) / 10" "sqrt 50 \<le> (9::real)"
proof -
  have "((12::real) / 10) ^ 2 < 2"
    by (simp add: power2_eq_square)
  then show "(12::real) / 10 < sqrt 2"
    by (rule real_less_rsqrt)
  have "(50::real) \<le> (88 / 10) ^ 2"
    by (simp add: power2_eq_square)
  then show "sqrt 50 \<le> (88::real) / 10"
    by (intro real_le_lsqrt) simp_all
  have "(50::real) \<le> 9 ^ 2"
    by simp
  then show "sqrt 50 \<le> (9::real)"
    by (intro real_le_lsqrt) simp_all
qed simp_all

lemma tickIncrement_0_120: "tickIncrement 0 120 10 = 10"
proof -
  have "\<not> sqrt 50 \<le> (12::real) / 10" "\<not> sqrt 10 \<le> (12::real) / 10" "\<not> sqrt 2 \<le> (12::real) / 10"
    using sqrt_bounds by linarith+
  then show ?thesis
    by (simp add: tickIncrement_def Let_def floor_log10_12)
qed

lemma tickIncrement_0_88: "tickIncrement 0 88 10 = 10"
  using sqrt_bounds(4) by (simp add: tickIncrement_def Let_def floor_log10_9)

lemma tickIncrement_0_90: "tickIncrement 0 90 10 = 10"
  using sqrt_bounds(5) by (simp add: tickIncrement_def Let_def floor_log10_9)

lemma nice_0_120:
  "nice tickIncrement \<lparr>l_domain = (Fin 0, Fin 120), l_range = r\<rparr>
     = \<lparr>l_domain = (Fin 0, Fin 120), l_range = r\<rparr>"
  by (simp add: nice_def numeral_eq_Suc tickIncrement_0_120)

lemma nice_0_0:
  "nice tickIncrement \<lparr>l_domain = (Fin 0, Fin 0), l_range = r\<rparr>
     = \<lparr>l_domain = (Fin 0, Fin 0), l_range = r\<rparr>"
  by (simp add: nice_def numeral_eq_Suc tickIncrement_degenerate)

lemma ceiling_88: "\<lceil>(44::real) / 5\<rceil> = 9"
  by (simp add: ceiling_eq_iff)

lemma nice_0_88:
  "nice tickIncrement \<lparr>l_domain = (Fin 0, Fin 88), l_range = r\<rparr>
     = \<lparr>l_domain = (Fin 0, Fin 90), l_range = r\<rparr>"
  by (simp add: nice_def numeral_eq_Suc tickIncrement_0_88 tickIncrement_0_90 ceiling_88)

lemma y_scale_examples:
  "y_scale tickIncrement ih [cheetah, elephant] = \<lparr>l_domain = (Fin 0, Fin 120), l_range = (ih, 0)\<rparr>"
  "y_scale tickIncrement ih [cheetah, sloth] = \<lparr>l_domain = (Fin 0, Fin 120), l_range = (ih, 0)\<rparr>"
  "y_scale tickIncrement ih [pronghorn, elephant] = \<lparr>l_domain = (Fin 0, Fin 90), l_range = (ih, 0)\<rparr>"
  "y_scale tickIncrement ih [sloth] = \<lparr>l_domain = (Fin 0, Fin 0), l_range = (ih, 0)\<rparr>"
  by (simp_all add: y_scale_def d3_max_def max_step_def cheetah_def elephant_def sloth_def
      pronghorn_def nice_0_120 nice_0_0 nice_0_88 scaleLinear_def)

lemma container0_dims:
  "chart_width (Some container0) = 800" "chart_height (Some container0) = 500"
  "inner_width 800 = 640" "inner_height 500 = 350"
  by (simp_all add: chart_width_def chart_height_def container0_def inner_width_def
      inner_height_def margin_left_def margin_right_def margin_top_def margin_bottom_def)

section \<open>The load effect and unmounting\<close>

lemma step_cancelled:
  assumes "cancelled st"
  shows "cancelled (step ti st ev) \<and> setterCalls (step ti st ev) = setterCalls st
         \<and> animalData (step ti st ev) = animalData st"
proof (cases ev)
  case (FetchSettles p)
  then show ?thesis
    using assms
    by (cases p) (simp_all add: fetch_settles_def promise_then_def then_callback_def)
next
  case Unmount
  then show ?thesis by simp
qed

lemma run_Cons: "run ti st (ev # evs) = run ti (step ti st ev) evs"
  by (simp add: run_def)

lemma run_append: "run ti st (evs1 @ evs2) = run ti (run ti st evs1) evs2"
  by (simp add: run_def)

lemma run_cancelled:
  "cancelled st \<Longrightarrow>
     cancelled (run ti st evs) \<and> setterCalls (run ti st evs) = setterCalls st
     \<and> animalData (run ti st evs) = animalData st"
proof (induction evs arbitrary: st)
  case Nil
  then show ?case by (simp add: run_def)
next
  case (Cons ev evs)
  have c: "cancelled (step ti st ev)"
    using step_cancelled [OF Cons.prems] by simp
  show ?case
    using Cons.IH [OF c] step_cancelled [OF Cons.prems, of ti ev] by (simp add: run_Cons)
qed

lemma mount_fields:
  "setterCalls (mount ti c) = [] \<and> animalData (mount ti c) = [] \<and> \<not> cancelled (mount ti c)
   \<and> fetchPending (mount ti c) \<and> graphRef (mount ti c) = Some (c\<lparr>innerHTML := []\<rparr>)
   \<and> unhandledRejection (mount ti c) = None \<and> renderError (mount ti c) = None"
  by (simp add: mount_def run_render_def render_effect_def clear_def)

text \<open>
  C1. Once the view has unmounted, nothing that happens later calls the state setter or
  changes the dataset: for every sequence of events before the unmount and every
  sequence after it, the setter calls and the dataset are those at the moment of the
  unmount. In particular, when the unmount comes before the fetch settles, the setter is
  never called and the dataset stays empty.
\<close>

theorem unmount_discards_fetch_result:
  "setterCalls (run ti (mount ti c) (evs1 @ Unmount # evs2)) = setterCalls (run ti (mount ti c) evs1)
   \<and> animalData (run ti (mount ti c) (evs1 @ Unmount # evs2)) = animalData (run ti (mount ti c) evs1)
   \<and> setterCalls (run ti (mount ti c) (Unmount # evs2)) = []
   \<and> animalData (run ti (mount ti c) (Unmount # evs2)) = []"
proof -
  have after: "setterCalls (run ti (step ti st Unmount) evs) = setterCalls st
               \<and> animalData (run ti (step ti st Unmount) evs) = animalData st" for st evs
    using run_cancelled [of "step ti st Unmount" ti evs] by simp
  show ?thesis
    using after [of "run ti (mount ti c) evs1" evs2] after [of "mount ti c" evs2]
    by (simp add: run_append run_Cons mount_fields)
qed

section \<open>A failed load\<close>

lemma fetch_rejected:
  assumes "fetchPending st"
  shows "step ti st (FetchSettles (Rejected reason))
           = st\<lparr>fetchPending := False, unhandledRejection := Some reason\<rparr>"
  using assms by (simp add: fetch_settles_def promise_then_def)

lemma step_settled:
  assumes "\<not> fetchPending st"
  shows "\<not> fetchPending (step ti st ev) \<and> animalData (step ti st ev) = animalData st
         \<and> setterCalls (step ti st ev) = setterCalls st
         \<and> unhandledRejection (step ti st ev) = unhandledRejection st
         \<and> (\<not> chart_drawn st \<longrightarrow> \<not> chart_drawn (step ti st ev))"
  using assms by (cases ev) (simp_all add: chart_drawn_def)

lemma run_settled:
  "\<not> fetchPending st \<Longrightarrow> \<not> chart_drawn st \<Longrightarrow>
     animalData (run ti st evs) = animalData st \<and> setterCalls (run ti st evs) = setterCalls st
     \<and> unhandledRejection (run ti st evs) = unhandledRejection st
     \<and> \<not> chart_drawn (run ti st evs)"
proof (induction evs arbitrary: st)
  case Nil
  then show ?case by (simp add: run_def)
next
  case (Cons ev evs)
  have s: "\<not> fetchPending (step ti st ev)" "\<not> chart_drawn (step ti st ev)"
    using step_settled [OF Cons.prems(1), of ti ev] Cons.prems(2) by auto
  show ?case
    using Cons.IH [OF s] step_settled [OF Cons.prems(1), of ti ev] by (simp add: run_Cons)
qed

text \<open>
  C2, as the code has it. When the fetch is rejected the callback passed to \<open>then\<close> does
  not run: the state setter is never called, the dataset stays empty, no chart is drawn
  and the render effect raises nothing, whatever happens afterwards. The rejection
  itself is not caught: the promise that \<open>then\<close> returns has no handler, so the rejection
  is left unhandled.
\<close>

theorem load_failure_leaves_dataset_empty:
  "animalData (run ti (mount ti c) (FetchSettles (Rejected reason) # evs)) = []
   \<and> setterCalls (run ti (mount ti c) (FetchSettles (Rejected reason) # evs)) = []
   \<and> \<not> chart_drawn (run ti (mount ti c) (FetchSettles (Rejected reason) # evs))
   \<and> renderError (step ti (mount ti c) (FetchSettles (Rejected reason))) = None
   \<and> unhandledRejection (run ti (mount ti c) (FetchSettles (Rejected reason) # evs)) = Some reason
   \<and> \<not> caught (run ti (mount ti c) (FetchSettles (Rejected reason) # evs))"
proof -
  define st where "st = step ti (mount ti c) (FetchSettles (Rejected reason))"
  have st: "st = (mount ti c)\<lparr>fetchPending := False, unhandledRejection := Some reason\<rparr>"
    unfolding st_def by (rule fetch_rejected) (simp add: mount_fields)
  have a: "\<not> fetchPending st" "\<not> chart_drawn st"
    by (simp_all add: st chart_drawn_def mount_fields)
  have b: "animalData st = []" "setterCalls st = []" "unhandledRejection st = Some reason"
      "renderError st = None"
    by (simp_all add: st mount_fields)
  have r: "run ti (mount ti c) (FetchSettles (Rejected reason) # evs) = run ti st evs"
    unfolding st_def by (rule run_Cons)
  show ?thesis
    unfolding r st_def [symmetric]
    using run_settled [OF a, of ti evs] b by (simp add: caught_def)
qed

text \<open>
  C2 as stated says the failure is caught. With the container of 800 by 500 and the
  rejection \<open>Failed to fetch\<close> it is not.
\<close>

theorem load_failure_not_caught:
  "\<not> caught (step tickIncrement (mount tickIncrement container0)
               (FetchSettles (Rejected ''Failed to fetch'')))"
  by (simp add: caught_def fetch_settles_def promise_then_def mount_fields)

section \<open>The guard for the empty dataset\<close>

lemma step_drawn_needs_data:
  assumes "chart_drawn st \<longrightarrow> animalData st \<noteq> []"
  shows "chart_drawn (step ti st ev) \<longrightarrow> animalData (step ti st ev) \<noteq> []"
proof (cases ev)
  case Unmount
  then show ?thesis by (simp add: chart_drawn_def)
next
  case (FetchSettles p)
  show ?thesis
  proof (cases p)
    case (Rejected reason)
    then show ?thesis
      using assms FetchSettles
      by (simp add: fetch_settles_def promise_then_def chart_drawn_def)
  next
    case (Fulfilled rows)
    show ?thesis
    proof (cases "fetchPending st \<and> \<not> cancelled st")
      case False
      then show ?thesis
        using assms FetchSettles Fulfilled
        by (auto simp: fetch_settles_def promise_then_def then_callback_def chart_drawn_def)
    next
      case True
      show ?thesis
      proof (cases "rows = []")
        case True
        have "graphRef (step ti st ev) = clear (graphRef st)"
          using \<open>fetchPending st \<and> \<not> cancelled st\<close> FetchSettles Fulfilled True
          by (simp add: fetch_settles_def promise_then_def then_callback_def setAnimalData_def
              run_render_def render_effect_empty)
        then have "\<not> chart_drawn (step ti st ev)"
          by (cases "graphRef st") (simp_all add: chart_drawn_def clear_def)
        then show ?thesis by simp
      next
        case False
        have "animalData (step ti st ev) = rows"
          using \<open>fetchPending st \<and> \<not> cancelled st\<close> FetchSettles Fulfilled
          by (simp add: fetch_settles_def promise_then_def then_callback_def setAnimalData_def
              run_render_def)
        then show ?thesis using False by simp
      qed
    qed
  qed
qed

lemma run_drawn_needs_data:
  "chart_drawn st \<longrightarrow> animalData st \<noteq> [] \<Longrightarrow>
     chart_drawn (run ti st evs) \<longrightarrow> animalData (run ti st evs) \<noteq> []"
proof (induction evs arbitrary: st)
  case Nil
  then show ?case by (simp add: run_def)
next
  case (Cons ev evs)
  show ?case
    using Cons.IH [OF step_drawn_needs_data [OF Cons.prems, of ti ev]] by (simp add: run_Cons)
qed

text \<open>
  C3. With the empty dataset the render effect returns right after clearing the
  container: its result is the cleared container, with nothing drawn in it, and neither
  the scales nor the drawing are evaluated. Nothing is raised on this path, and nothing
  would be raised past the guard either: \<open>max\<close> of no speeds is \<open>undefined\<close>, the speed scale
  built from it has the domain \<open>[0, NaN]\<close> and sends every speed to \<open>NaN\<close>. It is the guard
  that keeps such a chart from the page: whatever happens to a mounted view, no chart is
  drawn while its dataset is empty.
\<close>

theorem empty_dataset_short_circuits:
  "render_effect ti g [] = clear g
   \<and> rendered (render_effect ti g []) = []
   \<and> d3_max (map speed []) = None
   \<and> l_domain (y_scale ti ih []) = (Fin 0, NaN)
   \<and> linear_call (y_scale ti ih []) (Fin v) = Some NaN
   \<and> (animalData (run ti (mount ti c) evs) = [] \<longrightarrow> \<not> chart_drawn (run ti (mount ti c) evs))"
proof -
  have 1: "rendered (render_effect ti g []) = []"
    by (cases g) (simp_all add: render_effect_empty rendered_def clear_def)
  have 2: "d3_max (map speed []) = None"
    by (simp add: d3_max_def)
  have 3: "y_scale ti ih [] = \<lparr>l_domain = (Fin 0, NaN), l_range = (ih, 0)\<rparr>"
    by (rule y_scale_undefined [OF 2])
  have 4: "linear_call (y_scale ti ih []) (Fin v) = Some NaN"
    unfolding 3 by (simp add: linear_call_def)
  have "chart_drawn (mount ti c) \<longrightarrow> animalData (mount ti c) \<noteq> []"
    by (simp add: mount_fields chart_drawn_def)
  from run_drawn_needs_data [OF this, of ti evs]
  have 5: "animalData (run ti (mount ti c) evs) = [] \<longrightarrow> \<not> chart_drawn (run ti (mount ti c) evs)"
    by blast
  show ?thesis
    using 1 2 4 5 by (simp add: render_effect_empty 3)
qed

theorem empty_dataset_short_circuits_witness:
  "animalData (run tickIncrement (mount tickIncrement container0) [FetchSettles (Fulfilled [])]) = []
   \<and> setterCalls (run tickIncrement (mount tickIncrement container0) [FetchSettles (Fulfilled [])])
       = [[]]
   \<and> \<not> chart_drawn (run tickIncrement (mount tickIncrement container0) [FetchSettles (Fulfilled [])])"
proof -
  have a: "animalData (run tickIncrement (mount tickIncrement container0) [FetchSettles (Fulfilled [])]) = []"
    and s: "setterCalls (run tickIncrement (mount tickIncrement container0) [FetchSettles (Fulfilled [])]) = [[]]"
    by (simp_all add: run_def mount_fields fetch_settles_def promise_then_def then_callback_def
        setAnimalData_def run_render_def)
  show ?thesis
    using empty_dataset_short_circuits [of tickIncrement None 0 0 container0
        "[FetchSettles (Fulfilled [])]"] a s
    by simp
qed

section \<open>The speed scale when every speed is zero\<close>

text \<open>
  C4, where the code departs from it. In an 800 by 500 container the plotting area is
  350 high. For the dataset of one animal of speed 0 the largest speed is 0, \<open>nice\<close> leaves
  the domain \<open>[0, 0]\<close> as it is, and the scale sends 0, which is both the lower and the
  upper bound of its domain, to 175: the middle of the plotting area, neither its bottom
  edge 350 nor its top edge 0. For comparison, with the speeds 88 and 40 the domain is
  rounded outward to \<open>[0, 90]\<close>, 90 is sent to the top edge 0 and 0 to the bottom edge 350.
\<close>

theorem numeric_scale_degenerate:
  "y_scale tickIncrement (inner_height (chart_height (Some container0))) [sloth]
     = \<lparr>l_domain = (Fin 0, Fin 0), l_range = (350, 0)\<rparr>
   \<and> linear_call (y_scale tickIncrement (inner_height (chart_height (Some container0))) [sloth])
         (Fin 0) = Some (Fin 175)
   \<and> y_scale tickIncrement (inner_height (chart_height (Some container0))) [pronghorn, elephant]
       = \<lparr>l_domain = (Fin 0, Fin 90), l_range = (350, 0)\<rparr>
   \<and> linear_call
         (y_scale tickIncrement (inner_height (chart_height (Some container0))) [pronghorn, elephant])
         (Fin 90) = Some (Fin 0)
   \<and> linear_call
         (y_scale tickIncrement (inner_height (chart_height (Some container0))) [pronghorn, elephant])
         (Fin 0) = Some (Fin 350)"
  by (simp add: container0_dims y_scale_examples linear_call_def normalize_def
      interpolateNumber_def)

section \<open>The bar of an animal of speed zero\<close>

lemma x_scale_one:
  "band_call (x_scale 640 [sloth]) ''Sloth'' = Some (320 / 3)"
  "bandwidth (x_scale 640 [sloth]) = 1280 / 3"
  by (simp_all add: band_call_def band_values_def band_start_def band_step_def bandwidth_def
      x_scale_def band_padding_def scaleBand_def set_domain_def domain_push_def range_at_def
      sloth_def)

lemma x_scale_two:
  "band_call (x_scale 640 [cheetah, sloth]) ''Cheetah'' = Some (640 / 11)"
  "band_call (x_scale 640 [cheetah, sloth]) ''Sloth'' = Some (3840 / 11)"
  "bandwidth (x_scale 640 [cheetah, sloth]) = 2560 / 11"
  by (simp_all add: band_call_def band_values_def band_start_def band_step_def bandwidth_def
      x_scale_def band_padding_def scaleBand_def set_domain_def domain_push_def range_at_def
      sloth_def cheetah_def)

text \<open>
  C5, where the code departs from it. In an 800 by 500 container, the only bar drawn for
  the dataset of one animal of speed 0 starts at \<open>y = 175\<close> and is 175 high: half the
  plotting area, not a bar of height 0 at the baseline \<open>y = 350\<close>. This is the scale of C4
  again, whose domain is \<open>[0, 0]\<close>. When another animal has a positive speed the bar of the
  animal of speed 0 is as expected, at \<open>y = 350\<close> with height 0.
\<close>

theorem zero_bar_half_height:
  "drawn_bars (rendered (render_effect tickIncrement (Some container0) [sloth]))
     = [Elem ''rect''
          [(''class'', Str ''bar''), (''x'', Num (320 / 3)), (''y'', Num 175),
           (''width'', Num (1280 / 3)), (''height'', Num 175), (''fill'', Str ''#5AA469'')] []]
   \<and> drawn_bars (rendered (render_effect tickIncrement (Some container0) [cheetah, sloth]))
       = [Elem ''rect''
            [(''class'', Str ''bar''), (''x'', Num (640 / 11)), (''y'', Num 0),
             (''width'', Num (2560 / 11)), (''height'', Num 350), (''fill'', Str ''#C75C5C'')] [],
          Elem ''rect''
            [(''class'', Str ''bar''), (''x'', Num (3840 / 11)), (''y'', Num 350),
             (''width'', Num (2560 / 11)), (''height'', Num 0), (''fill'', Str ''#5AA469'')] []]"
proof -
  have dims: "real (clientWidth container0) = 800" "real (clientHeight container0) = 500"
    by (simp_all add: container0_def)
  have names: "name sloth = ''Sloth''" "name cheetah = ''Cheetah''"
    and speeds: "speed sloth = Fin 0" "speed cheetah = Fin 120"
    and diets: "diet sloth = ''Herbivore''" "diet cheetah = ''Carnivore''"
    by (simp_all add: sloth_def cheetah_def)
  have col: "ordinal_call color_scale ''Herbivore'' = (Some ''#5AA469'', color_scale)"
      "ordinal_call color_scale ''Carnivore'' = (Some ''#C75C5C'', color_scale)"
    using color_inv_diets [OF color_inv_start] by simp_all
  have one: "drawn_bars (rendered (render_effect tickIncrement (Some container0) [sloth]))
               = [Elem ''rect''
                    [(''class'', Str ''bar''), (''x'', Num (320 / 3)), (''y'', Num 175),
                     (''width'', Num (1280 / 3)), (''height'', Num 175),
                     (''fill'', Str ''#5AA469'')] []]"
    by (simp add: drawn_bars_render dims container0_dims y_scale_examples x_scale_one names
        speeds diets col bar_def opt_attr_def linear_call_def normalize_def interpolateNumber_def
        to_number_def)
  have two: "drawn_bars (rendered (render_effect tickIncrement (Some container0) [cheetah, sloth]))
               = [Elem ''rect''
                    [(''class'', Str ''bar''), (''x'', Num (640 / 11)), (''y'', Num 0),
                     (''width'', Num (2560 / 11)), (''height'', Num 350),
                     (''fill'', Str ''#C75C5C'')] [],
                  Elem ''rect''
                    [(''class'', Str ''bar''), (''x'', Num (3840 / 11)), (''y'', Num 350),
                     (''width'', Num (2560 / 11)), (''height'', Num 0),
                     (''fill'', Str ''#5AA469'')] []]"
    by (simp add: drawn_bars_render dims container0_dims y_scale_examples x_scale_two names
        speeds diets col bar_def opt_attr_def linear_call_def normalize_def interpolateNumber_def
        to_number_def)
  show ?thesis
    using one two by simp
qed

section \<open>The position scale\<close>

lemma set_domain_is_distinct: "distinct (set_domain vs)"
  using foldl_domain_push_distinct [of "[]" vs] by (simp add: set_domain_def)

lemma x_scale_geometry:
  assumes n: "ds \<noteq> []" and W: "0 \<le> W"
  shows "band_step (x_scale W ds) = W / (real (length (b_domain (x_scale W ds))) + 1 / 5)
         \<and> band_start (x_scale W ds) = W / (real (length (b_domain (x_scale W ds))) + 1 / 5) / 5
         \<and> bandwidth (x_scale W ds) = W / (real (length (b_domain (x_scale W ds))) + 1 / 5) * (4 / 5)"
proof -
  define k where "k = real (length (set_domain (map name ds)))"
  have "set (set_domain (map name ds)) \<noteq> {}"
    using n by (simp add: set_domain_set)
  then have "set_domain (map name ds) \<noteq> []"
    by auto
  then have k: "1 \<le> k"
    by (cases "set_domain (map name ds)") (simp_all add: k_def)
  have mx: "max 1 (1 / 5 + k) = k + 1 / 5"
    using k by simp
  have step: "band_step (x_scale W ds) = W / (k + 1 / 5)"
    using W mx by (simp add: band_step_def x_scale_fields k_def [symmetric])
  define s where "s = W / (k + 1 / 5)"
  have Ws: "W = s * (k + 1 / 5)"
    using k by (simp add: s_def)
  have "(s * (k + 1 / 5) - s * (k - 2 / 10)) * (1 / 2) = s / 5"
    by (simp add: algebra_simps)
  then have "(W - s * (k - 2 / 10)) * (1 / 2) = s / 5"
    using Ws by simp
  then have s1: "(W - W / (k + 1 / 5) * (k - 2 / 10)) * (1 / 2) = W / (k + 1 / 5) / 5"
    by (simp only: s_def)
  have s0: "band_start (x_scale W ds)
              = (W - band_step (x_scale W ds) * (k - 2 / 10)) * (1 / 2)"
    using W by (simp add: band_start_def x_scale_fields k_def [symmetric])
  have start: "band_start (x_scale W ds) = W / (k + 1 / 5) / 5"
    unfolding s0 step by (rule s1)
  have bw: "bandwidth (x_scale W ds) = W / (k + 1 / 5) * (4 / 5)"
    by (simp add: bandwidth_def x_scale_fields step)
  show ?thesis
    using step start bw by (simp add: k_def x_scale_fields)
qed

lemma x_scale_call_nth:
  assumes i: "i < length (b_domain (x_scale W ds))" and W: "0 \<le> W"
  shows "band_call (x_scale W ds) (b_domain (x_scale W ds) ! i)
           = Some (band_start (x_scale W ds) + band_step (x_scale W ds) * real i)"
proof -
  have idx: "index_of (b_domain (x_scale W ds)) (b_domain (x_scale W ds) ! i) = Some i"
    using index_of_nth_distinct [OF set_domain_is_distinct, of i "map name ds"] i
    by (simp add: x_scale_fields)
  have vals: "band_values (x_scale W ds)
                = map (\<lambda>i. band_start (x_scale W ds) + band_step (x_scale W ds) * real i)
                    [0..<length (b_domain (x_scale W ds))]"
    using W by (simp add: band_values_def x_scale_fields)
  have "b_domain (x_scale W ds) \<noteq> []"
    using i by auto
  then show ?thesis
    using i by (simp add: band_call_def idx range_at_def vals)
qed

text \<open>
  C6. The position scale has the record names as its domain (in the order of the
  dataset, a repeated name kept once at its first place; the names themselves when they
  are distinct), the range \<open>[0, innerWidth]\<close> and the padding \<open>0.2\<close>. Of two names of the
  domain the earlier one is placed strictly to the left, its band ends before the later
  band begins, and every band lies within \<open>[0, innerWidth]\<close>. For the dataset of Cheetah
  and Elephant in the container of 800 by 500 the bands start at \<open>640/11\<close> and
  \<open>3840/11\<close> and are \<open>2560/11\<close> wide, within \<open>[0, 640]\<close>.
\<close>

theorem band_positions_ordered:
  assumes "i < j" and "j < length (b_domain (x_scale (inner_width (chart_width g)) ds))"
  shows "\<exists>xi xj.
           band_call (x_scale (inner_width (chart_width g)) ds)
               (b_domain (x_scale (inner_width (chart_width g)) ds) ! i) = Some xi
           \<and> band_call (x_scale (inner_width (chart_width g)) ds)
               (b_domain (x_scale (inner_width (chart_width g)) ds) ! j) = Some xj
           \<and> 0 \<le> xi \<and> xi < xj
           \<and> xi + bandwidth (x_scale (inner_width (chart_width g)) ds) \<le> xj
           \<and> xj + bandwidth (x_scale (inner_width (chart_width g)) ds) \<le> inner_width (chart_width g)
           \<and> b_domain (x_scale (inner_width (chart_width g)) ds) = set_domain (map name ds)
           \<and> (distinct (map name ds)
                \<longrightarrow> b_domain (x_scale (inner_width (chart_width g)) ds) = map name ds)
           \<and> b_range (x_scale (inner_width (chart_width g)) ds) = (0, inner_width (chart_width g))
           \<and> paddingInner (x_scale (inner_width (chart_width g)) ds) = 2 / 10"
proof -
  define W where "W = inner_width (chart_width g)"
  define k where "k = real (length (b_domain (x_scale W ds)))"
  define s where "s = W / (k + 1 / 5)"
  have W: "0 < W"
    using inner_width_chart [of g] by (simp add: W_def)
  have j: "j < length (b_domain (x_scale W ds))"
    using assms(2) by (simp add: W_def)
  have ne: "ds \<noteq> []"
    using j by (auto simp: x_scale_fields set_domain_def)
  have k: "1 \<le> k"
    using j by (simp add: k_def)
  have s: "0 < s"
    using W k by (simp add: s_def)
  have geo: "band_step (x_scale W ds) = s" "band_start (x_scale W ds) = s / 5"
      "bandwidth (x_scale W ds) = s * (4 / 5)"
    using x_scale_geometry [OF ne, of W] W by (simp_all add: s_def k_def)
  have i: "i < length (b_domain (x_scale W ds))"
    using assms(1) j by simp
  have xi: "band_call (x_scale W ds) (b_domain (x_scale W ds) ! i) = Some (s / 5 + s * real i)"
    using x_scale_call_nth [OF i] W by (simp add: geo)
  have xj: "band_call (x_scale W ds) (b_domain (x_scale W ds) ! j) = Some (s / 5 + s * real j)"
    using x_scale_call_nth [OF j] W by (simp add: geo)
  have ij: "real i + 1 \<le> real j"
    using assms(1) by simp
  have jk: "real j + 1 \<le> k"
    using j by (simp add: k_def)
  have a: "0 \<le> s / 5 + s * real i"
    using s by simp
  have "s * (real i + 1) \<le> s * real j"
    using ij s by (simp only: mult_le_cancel_left_pos)
  then have b: "s / 5 + s * real i + s * (4 / 5) \<le> s / 5 + s * real j"
    using s by (simp add: algebra_simps)
  have c: "s / 5 + s * real i < s / 5 + s * real j"
    using assms(1) s by simp
  have "s * (real j + 1) \<le> s * k"
    using jk s by (simp only: mult_le_cancel_left_pos)
  moreover have "W = s * (k + 1 / 5)"
    using k by (simp add: s_def)
  ultimately have d: "s / 5 + s * real j + s * (4 / 5) \<le> W"
    using s by (simp add: algebra_simps)
  have e: "b_domain (x_scale W ds) = set_domain (map name ds)"
      "distinct (map name ds) \<longrightarrow> b_domain (x_scale W ds) = map name ds"
      "b_range (x_scale W ds) = (0, W)" "paddingInner (x_scale W ds) = 2 / 10"
    by (simp_all add: x_scale_fields set_domain_distinct)
  have "\<exists>xi xj.
           band_call (x_scale W ds) (b_domain (x_scale W ds) ! i) = Some xi
           \<and> band_call (x_scale W ds) (b_domain (x_scale W ds) ! j) = Some xj
           \<and> 0 \<le> xi \<and> xi < xj
           \<and> xi + bandwidth (x_scale W ds) \<le> xj
           \<and> xj + bandwidth (x_scale W ds) \<le> W"
    unfolding geo xi xj using a b c d by simp
  then show ?thesis
    unfolding W_def [symmetric] using e by simp
qed

theorem band_positions_ordered_witness:
  "(0::nat) < 1
   \<and> 1 < length (b_domain (x_scale (inner_width (chart_width (Some container0))) [cheetah, elephant]))
   \<and> inner_width (chart_width (Some container0)) = 640
   \<and> b_domain (x_scale 640 [cheetah, elephant]) = [''Cheetah'', ''Elephant'']
   \<and> band_call (x_scale 640 [cheetah, elephant]) ''Cheetah'' = Some (640 / 11)
   \<and> band_call (x_scale 640 [cheetah, elephant]) ''Elephant'' = Some (3840 / 11)
   \<and> bandwidth (x_scale 640 [cheetah, elephant]) = 2560 / 11"
proof -
  have w: "inner_width (chart_width (Some container0)) = 640"
    by (simp add: container0_dims)
  have dom: "b_domain (x_scale 640 [cheetah, elephant]) = [''Cheetah'', ''Elephant'']"
    by (simp add: x_scale_fields set_domain_def domain_push_def cheetah_def elephant_def)
  have geo: "band_step (x_scale 640 [cheetah, elephant]) = 3200 / 11"
      "band_start (x_scale 640 [cheetah, elephant]) = 640 / 11"
      "bandwidth (x_scale 640 [cheetah, elephant]) = 2560 / 11"
    using x_scale_geometry [of "[cheetah, elephant]" 640] by (simp_all add: dom)
  have c: "band_call (x_scale 640 [cheetah, elephant]) ''Cheetah'' = Some (640 / 11)"
    using x_scale_call_nth [of 0 640 "[cheetah, elephant]"] by (simp add: geo dom)
  have e: "band_call (x_scale 640 [cheetah, elephant]) ''Elephant'' = Some (3840 / 11)"
    using x_scale_call_nth [of 1 640 "[cheetah, elephant]"] by (simp add: geo dom)
  show ?thesis
    using band_positions_ordered [of 0 1 "Some container0" "[cheetah, elephant]"] w dom geo c e
    by simp
qed

section \<open>The colour scale\<close>

text \<open>
  C7. The colour scale has the domain Herbivore, Carnivore, Omnivore and the range of
  three colours in the same order. In every state the scale can reach, that is after any
  calls, the three diets map to their colours, and every input, inside the domain or
  not, gets a defined colour of the range; on the fresh scale \<open>Unknown\<close> gets the first
  colour.
\<close>

theorem color_scale_total:
  "o_domain color_scale = [''Herbivore'', ''Carnivore'', ''Omnivore'']
   \<and> o_range color_scale = [''#5AA469'', ''#C75C5C'', ''#4D96FF'']
   \<and> fst (ordinal_call (ordinal_calls color_scale ds) ''Herbivore'') = Some ''#5AA469''
   \<and> fst (ordinal_call (ordinal_calls color_scale ds) ''Carnivore'') = Some ''#C75C5C''
   \<and> fst (ordinal_call (ordinal_calls color_scale ds) ''Omnivore'') = Some ''#4D96FF''
   \<and> (\<exists>c. fst (ordinal_call (ordinal_calls color_scale ds) d) = Some c
            \<and> c \<in> set (o_range color_scale))
   \<and> fst (ordinal_call color_scale ''Unknown'') = Some ''#5AA469''"
proof -
  have inv: "color_inv (ordinal_calls color_scale ds)"
    by (rule color_inv_calls [OF color_inv_start])
  have "fst (ordinal_call color_scale ''Unknown'') = Some ''#5AA469''"
    by (simp add: ordinal_call_def color_scale_fields range_at_def)
  then show ?thesis
    using color_inv_diets [OF inv] color_inv_defined [OF inv, of d]
    by (simp add: color_scale_fields)
qed

section \<open>Rendering twice\<close>

lemma x_scale_cheetah_elephant:
  "x_scale 640 [cheetah, elephant]
     = \<lparr>b_domain = [''Cheetah'', ''Elephant''], b_range = (0, 640),
          paddingInner = 1 / 5, paddingOuter = 1 / 5, align = 1 / 2, b_round = False\<rparr>"
  "band_call (x_scale 640 [cheetah, elephant]) ''Cheetah'' = Some (640 / 11)"
  "band_call (x_scale 640 [cheetah, elephant]) ''Elephant'' = Some (3840 / 11)"
  "bandwidth (x_scale 640 [cheetah, elephant]) = 2560 / 11"
  by (simp_all add: band_call_def band_values_def band_start_def band_step_def bandwidth_def
      x_scale_def band_padding_def scaleBand_def set_domain_def domain_push_def range_at_def
      elephant_def cheetah_def)

lemma render_cheetah_elephant:
  "render_effect tickIncrement (Some container0) [cheetah, elephant]
     = Some (container0\<lparr>innerHTML :=
      [Elem ''svg'' [(''width'', Num 800), (''height'', Num 500)]
        [Elem ''g'' [(''transform'', Translate 100 70)]
           [Elem ''g'' [(''transform'', Translate 0 350)]
              [AxisBottom
                 \<lparr>b_domain = [''Cheetah'', ''Elephant''], b_range = (0, 640),
                    paddingInner = 1 / 5, paddingOuter = 1 / 5, align = 1 / 2, b_round = False\<rparr>
                 [(''text-anchor'', Str ''end''), (''dx'', Str ''-0.4em''),
                  (''dy'', Str ''0.2em''), (''transform'', Rotate (- 90))]],
            Elem ''g'' [] [AxisLeft \<lparr>l_domain = (Fin 0, Fin 120), l_range = (350, 0)\<rparr> 6],
            TextElem
              [(''x'', Num 320), (''y'', Num 400), (''text-anchor'', Str ''middle''),
               (''font-weight'', Num 600)]
              (Str ''Animal''),
            TextElem
              [(''transform'', Rotate (- 90)), (''x'', Num (- 175)), (''y'', Num (- 60)),
               (''text-anchor'', Str ''middle''), (''font-weight'', Num 600)]
              (Str ''Speed (km/h)''),
            Elem ''rect''
              [(''class'', Str ''bar''), (''x'', Num (640 / 11)), (''y'', Num 0),
               (''width'', Num (2560 / 11)), (''height'', Num 350), (''fill'', Str ''#C75C5C'')] [],
            Elem ''rect''
              [(''class'', Str ''bar''), (''x'', Num (3840 / 11)), (''y'', Num (700 / 3)),
               (''width'', Num (2560 / 11)), (''height'', Num (350 / 3)),
               (''fill'', Str ''#5AA469'')] [],
            TextElem
              [(''class'', Str ''bar-label''), (''x'', Num (1920 / 11)), (''y'', Num (- 6)),
               (''text-anchor'', Str ''middle''), (''font-size'', Num 12)]
              (Num 120),
            TextElem
              [(''class'', Str ''bar-label''), (''x'', Num (5120 / 11)), (''y'', Num (682 / 3)),
               (''text-anchor'', Str ''middle''), (''font-size'', Num 12)]
              (Num 40),
            Elem ''g'' [(''transform'', Translate 490 (- 10))]
              [Elem ''g'' [(''class'', Str ''legend-item''), (''transform'', Translate 0 0)]
                 [Elem ''rect''
                    [(''width'', Num 14), (''height'', Num 14), (''rx'', Num 2), (''ry'', Num 2),
                     (''fill'', Str ''#5AA469'')] [],
                  TextElem [(''x'', Num 20), (''y'', Num 11), (''font-size'', Num 12)]
                    (Str ''Herbivore'')],
               Elem ''g'' [(''class'', Str ''legend-item''), (''transform'', Translate 0 20)]
                 [Elem ''rect''
                    [(''width'', Num 14), (''height'', Num 14), (''rx'', Num 2), (''ry'', Num 2),
                     (''fill'', Str ''#C75C5C'')] [],
                  TextElem [(''x'', Num 20), (''y'', Num 11), (''font-size'', Num 12)]
                    (Str ''Carnivore'')],
               Elem ''g'' [(''class'', Str ''legend-item''), (''transform'', Translate 0 40)]
                 [Elem ''rect''
                    [(''width'', Num 14), (''height'', Num 14), (''rx'', Num 2), (''ry'', Num 2),
                     (''fill'', Str ''#4D96FF'')] [],
                  TextElem [(''x'', Num 20), (''y'', Num 11), (''font-size'', Num 12)]
                    (Str ''Omnivore'')]]],
         TextElem
           [(''x'', Num 400), (''y'', Num 35), (''text-anchor'', Str ''middle''),
            (''font-size'', Num 18), (''font-weight'', Num 700)]
           (Str ''Animal Speeds by Diet'')]]\<rparr>)"
proof -
  have dims: "real (clientWidth container0) = 800" "real (clientHeight container0) = 500"
    by (simp_all add: container0_def)
  have fields: "name elephant = ''Elephant''" "name cheetah = ''Cheetah''"
      "speed elephant = Fin 40" "speed cheetah = Fin 120"
      "diet elephant = ''Herbivore''" "diet cheetah = ''Carnivore''"
    by (simp_all add: elephant_def cheetah_def)
  have col: "ordinal_call color_scale ''Herbivore'' = (Some ''#5AA469'', color_scale)"
      "ordinal_call color_scale ''Carnivore'' = (Some ''#C75C5C'', color_scale)"
      "ordinal_call color_scale ''Omnivore'' = (Some ''#4D96FF'', color_scale)"
    using color_inv_diets [OF color_inv_start] by simp_all
  show ?thesis
    by (simp add: render_effect_def clear_def chart_width_def chart_height_def dims draw_chart_def
        container0_dims y_scale_examples svg_tree_def x_axis_def y_axis_def axis_titles_def
        legend_def legend_item_def opt_attr_def chart_title_def margin_left_def margin_top_def
        x_scale_cheetah_elephant fields col bar_def bar_labels_def bar_label_def linear_call_def
        normalize_def interpolateNumber_def to_number_def diets_def Let_def band_call_def
        band_values_def band_start_def band_step_def bandwidth_def band_padding_def range_at_def)
qed

text \<open>
  C8. Rendering a second time with the same dataset gives the same container as
  rendering once, and what a render leaves in the container does not depend on what
  was in it before: the old content is discarded, nothing accumulates. What is drawn
  is the full composition. With an empty dataset it is nothing. With a dataset that is
  not empty and whose speeds are numbers it is one \<open>svg\<close> of the size of the chart,
  holding the plotting group moved by the margins, with the two axes and their titles,
  one bar per record at the positions the two scales give and in the colour of the
  record's diet, one label per record above its bar showing the speed, the legend group
  with its three entries, and after the plotting group the title of the chart.
\<close>

theorem rerender_idempotent:
  assumes W: "W = max (real (clientWidth c)) 600" and H: "H = max (real (clientHeight c)) 400"
    and X: "X = \<lparr>b_domain = set_domain (map name ds), b_range = (0, W - 160),
                  paddingInner = 1 / 5, paddingOuter = 1 / 5, align = 1 / 2, b_round = False\<rparr>"
  shows "render_effect ti (render_effect ti g ds) ds = render_effect ti g ds
         \<and> render_effect ti (map_option (\<lambda>c'. c'\<lparr>innerHTML := old\<rparr>) g) ds = render_effect ti g ds
         \<and> (ds = [] \<longrightarrow> render_effect ti (Some c) ds = Some (c\<lparr>innerHTML := []\<rparr>))
         \<and> (ds \<noteq> [] \<and> (\<forall>d\<in>set ds. speed d \<noteq> NaN) \<longrightarrow>
               (\<exists>m Y xs ys ss cs.
                    d3_max (map speed ds) = Some m
                    \<and> Y = (nice ti \<lparr>l_domain = (Fin 0, Fin m), l_range = (0, 1)\<rparr>)\<lparr>l_range := (H - 150, 0)\<rparr>
                    \<and> length xs = length ds \<and> length ys = length ds
                    \<and> length ss = length ds \<and> length cs = length ds
                    \<and> (\<forall>i<length ds.
                          band_call X (name (ds ! i)) = Some (xs ! i)
                          \<and> speed (ds ! i) = Fin (ss ! i)
                          \<and> linear_call Y (Fin (ss ! i)) = Some (Fin (ys ! i))
                          \<and> (\<exists>k. index_of (set_domain ([''Herbivore'', ''Carnivore'', ''Omnivore'']
                                                           @ map diet ds)) (diet (ds ! i)) = Some k
                                  \<and> cs ! i = [''#5AA469'', ''#C75C5C'', ''#4D96FF''] ! (k mod 3)))
                    \<and> render_effect ti (Some c) ds = Some (c\<lparr>innerHTML :=
      [Elem ''svg'' [(''width'', Num W), (''height'', Num H)]
      [Elem ''g'' [(''transform'', Translate 100 70)]
         ([Elem ''g'' [(''transform'', Translate 0 (H - 150))]
             [AxisBottom X
                [(''text-anchor'', Str ''end''), (''dx'', Str ''-0.4em''),
                 (''dy'', Str ''0.2em''), (''transform'', Rotate (- 90))]],
           Elem ''g'' [] [AxisLeft Y 6],
           TextElem
             [(''x'', Num ((W - 160) / 2)), (''y'', Num (H - 150 + 50)),
              (''text-anchor'', Str ''middle''), (''font-weight'', Num 600)]
             (Str ''Animal''),
           TextElem
             [(''transform'', Rotate (- 90)), (''x'', Num (- (H - 150) / 2)),
              (''y'', Num (- 60)), (''text-anchor'', Str ''middle''),
              (''font-weight'', Num 600)]
             (Str ''Speed (km/h)'')]
          @ map (\<lambda>(xp, yv, col).
                   Elem ''rect''
                     [(''class'', Str ''bar''), (''x'', Num xp), (''y'', Num yv),
                      (''width'', Num (bandwidth X)),
                      (''height'', Num (H - 150 - yv)), (''fill'', Str col)] [])
              (zip xs (zip ys cs))
          @ map (\<lambda>(xp, yv, s).
                   TextElem
                     [(''class'', Str ''bar-label''),
                      (''x'', Num (xp + bandwidth X / 2)), (''y'', Num (yv - 6)),
                      (''text-anchor'', Str ''middle''), (''font-size'', Num 12)]
                     (Num s))
              (zip xs (zip ys ss))
          @ [Elem ''g'' [(''transform'', Translate (W - 160 - 150) (- 10))]
               [Elem ''g''
                  [(''class'', Str ''legend-item''), (''transform'', Translate 0 0)]
                  [Elem ''rect''
                     [(''width'', Num 14), (''height'', Num 14), (''rx'', Num 2),
                      (''ry'', Num 2), (''fill'', Str ''#5AA469'')] [],
                   TextElem
                     [(''x'', Num 20), (''y'', Num 11), (''font-size'', Num 12)]
                     (Str ''Herbivore'')],
                Elem ''g''
                  [(''class'', Str ''legend-item''), (''transform'', Translate 0 20)]
                  [Elem ''rect''
                     [(''width'', Num 14), (''height'', Num 14), (''rx'', Num 2),
                      (''ry'', Num 2), (''fill'', Str ''#C75C5C'')] [],
                   TextElem
                     [(''x'', Num 20), (''y'', Num 11), (''font-size'', Num 12)]
                     (Str ''Carnivore'')],
                Elem ''g''
                  [(''class'', Str ''legend-item''), (''transform'', Translate 0 40)]
                  [Elem ''rect''
                     [(''width'', Num 14), (''height'', Num 14), (''rx'', Num 2),
                      (''ry'', Num 2), (''fill'', Str ''#4D96FF'')] [],
                   TextElem
                     [(''x'', Num 20), (''y'', Num 11), (''font-size'', Num 12)]
                     (Str ''Omnivore'')]]]),
       TextElem
         [(''x'', Num (W / 2)), (''y'', Num 35), (''text-anchor'', Str ''middle''),
          (''font-size'', Num 18), (''font-weight'', Num 700)]
         (Str ''Animal Speeds by Diet'')]]\<rparr>)))"
    (is "?A \<and> ?B \<and> ?C \<and> (?P \<longrightarrow> ?Q)")
proof -
  have q: ?Q if ne: "ds \<noteq> []" and fin: "\<forall>d\<in>set ds. speed d \<noteq> NaN"
  proof -
    have Xeq: "x_scale (inner_width W) ds = X"
      by (simp add: X x_scale_def band_padding_def scaleBand_def inner_width_def margin_left_def
          margin_right_def)
    have ih: "inner_height H = H - 150" and iw: "inner_width W = W - 160"
      by (simp_all add: inner_height_def inner_width_def margin_top_def margin_bottom_def
          margin_left_def margin_right_def)
    obtain d where "d \<in> set ds"
      using ne by (cases ds) auto
    then obtain s0 where "Fin s0 \<in> set (map speed ds)"
      using fin by (cases "speed d") force+
    then obtain m where m: "d3_max (map speed ds) = Some m"
      using d3_max_defined by blast
    define Y where "Y = (nice ti \<lparr>l_domain = (Fin 0, Fin m), l_range = (0, 1)\<rparr>)\<lparr>l_range := (H - 150, 0)\<rparr>"
    have Yeq: "y_scale ti (H - 150) ds = Y"
      by (simp add: y_scale_def m Y_def scaleLinear_def)
    obtain d0 d1 where Yshape: "Y = \<lparr>l_domain = (Fin d0, Fin d1), l_range = (H - 150, 0)\<rparr>"
      using y_scale_finite [OF m, of ti "H - 150"] Yeq by auto
    define ss where "ss = map (\<lambda>d. case speed d of Fin s \<Rightarrow> s | NaN \<Rightarrow> 0) ds"
    define xs where "xs = map (\<lambda>d. the (band_call X (name d))) ds"
    define ys where "ys = map (\<lambda>d. case linear_call Y (speed d) of Some (Fin v) \<Rightarrow> v | _ \<Rightarrow> 0) ds"
    define fs where "fs = (\<lambda>i. fst (ordinal_call (ordinal_calls color_scale (take i (map diet ds)))
                               (diet (ds ! i))))"
    define cs where "cs = map (\<lambda>i. the (fs i)) [0..<length ds]"
    have len: "length xs = length ds" "length ys = length ds" "length ss = length ds"
        "length cs = length ds"
      by (simp_all add: xs_def ys_def ss_def cs_def)
    have sp: "speed (ds ! i) = Fin (ss ! i)" if "i < length ds" for i
      using that fin nth_mem [OF that] by (cases "speed (ds ! i)") (auto simp: ss_def)
    have xp: "band_call X (name (ds ! i)) = Some (xs ! i)" if "i < length ds" for i
      using that x_scale_defined [OF nth_mem [OF that], of "inner_width W"]
      by (auto simp: Xeq xs_def)
    have yv: "linear_call Y (Fin (ss ! i)) = Some (Fin (ys ! i))" if "i < length ds" for i
      using that linear_call_finite [of d0 d1 "(H - 150, 0)" "ss ! i"] sp [OF that]
      by (auto simp: Yshape [symmetric] ys_def)
    have col: "\<exists>k. index_of (set_domain ([''Herbivore'', ''Carnivore'', ''Omnivore''] @ map diet ds))
                       (diet (ds ! i)) = Some k
                   \<and> fs i = Some ([''#5AA469'', ''#C75C5C'', ''#4D96FF''] ! (k mod 3))
                   \<and> cs ! i = [''#5AA469'', ''#C75C5C'', ''#4D96FF''] ! (k mod 3)"
      if "i < length ds" for i
      using that color_fill_closed [of i "map diet ds"] by (auto simp: fs_def cs_def)
    have fsome: "fs i = Some (cs ! i)" if "i < length ds" for i
      using col [OF that] by auto
    have rects: "fst (bars X Y (H - 150) color_scale ds)
                   = map (\<lambda>(xp, yv, col).
                            Elem ''rect''
                              [(''class'', Str ''bar''), (''x'', Num xp), (''y'', Num yv),
                               (''width'', Num (bandwidth X)),
                               (''height'', Num (H - 150 - yv)), (''fill'', Str col)] [])
                       (zip xs (zip ys cs))"
    proof (rule nth_equalityI)
      show "length (fst (bars X Y (H - 150) color_scale ds))
              = length (map (\<lambda>(xp, yv, col).
                            Elem ''rect''
                              [(''class'', Str ''bar''), (''x'', Num xp), (''y'', Num yv),
                               (''width'', Num (bandwidth X)),
                               (''height'', Num (H - 150 - yv)), (''fill'', Str col)] [])
                       (zip xs (zip ys cs)))"
        by (simp add: bars_length len)
    next
      fix i assume "i < length (fst (bars X Y (H - 150) color_scale ds))"
      then have i: "i < length ds"
        by (simp add: bars_length)
      have "fst (bars X Y (H - 150) color_scale ds) ! i = bar X Y (H - 150) (fs i) (ds ! i)"
        using bars_nth [OF i, of X Y "H - 150" color_scale] by (simp add: fs_def)
      also have "\<dots> = Elem ''rect''
                          [(''class'', Str ''bar''), (''x'', Num (xs ! i)), (''y'', Num (ys ! i)),
                           (''width'', Num (bandwidth X)),
                           (''height'', Num (H - 150 - ys ! i)), (''fill'', Str (cs ! i))] []"
        by (simp add: bar_def xp [OF i] sp [OF i] yv [OF i] fsome [OF i] opt_attr_def to_number_def)
      finally show "fst (bars X Y (H - 150) color_scale ds) ! i
              = map (\<lambda>(xp, yv, col).
                            Elem ''rect''
                              [(''class'', Str ''bar''), (''x'', Num xp), (''y'', Num yv),
                               (''width'', Num (bandwidth X)),
                               (''height'', Num (H - 150 - yv)), (''fill'', Str col)] [])
                       (zip xs (zip ys cs)) ! i"
        using i by (simp add: len)
    qed
    have labels: "bar_labels X Y ds
                    = map (\<lambda>(xp, yv, s).
                             TextElem
                               [(''class'', Str ''bar-label''),
                                (''x'', Num (xp + bandwidth X / 2)), (''y'', Num (yv - 6)),
                                (''text-anchor'', Str ''middle''), (''font-size'', Num 12)]
                               (Num s))
                        (zip xs (zip ys ss))"
    proof (rule nth_equalityI)
      show "length (bar_labels X Y ds)
              = length (map (\<lambda>(xp, yv, s).
                             TextElem
                               [(''class'', Str ''bar-label''),
                                (''x'', Num (xp + bandwidth X / 2)), (''y'', Num (yv - 6)),
                                (''text-anchor'', Str ''middle''), (''font-size'', Num 12)]
                               (Num s))
                        (zip xs (zip ys ss)))"
        by (simp add: bar_labels_def len)
    next
      fix i assume "i < length (bar_labels X Y ds)"
      then have i: "i < length ds"
        by (simp add: bar_labels_def)
      have "bar_labels X Y ds ! i = bar_label X Y (ds ! i)"
        using i by (simp add: bar_labels_def)
      also have "\<dots> = TextElem
                          [(''class'', Str ''bar-label''),
                           (''x'', Num (xs ! i + bandwidth X / 2)), (''y'', Num (ys ! i - 6)),
                           (''text-anchor'', Str ''middle''), (''font-size'', Num 12)]
                          (Num (ss ! i))"
        by (simp add: bar_label_def xp [OF i] sp [OF i] yv [OF i] to_number_def)
      finally show "bar_labels X Y ds ! i
              = map (\<lambda>(xp, yv, s).
                             TextElem
                               [(''class'', Str ''bar-label''),
                                (''x'', Num (xp + bandwidth X / 2)), (''y'', Num (yv - 6)),
                                (''text-anchor'', Str ''middle''), (''font-size'', Num 12)]
                               (Num s))
                        (zip xs (zip ys ss)) ! i"
        using i by (simp add: len)
    qed
    have leg: "fst (legend_items (ordinal_calls color_scale (map diet ds)) 0 diets)
                 = [Elem ''g''
                      [(''class'', Str ''legend-item''), (''transform'', Translate 0 0)]
                      [Elem ''rect''
                         [(''width'', Num 14), (''height'', Num 14), (''rx'', Num 2),
                          (''ry'', Num 2), (''fill'', Str ''#5AA469'')] [],
                       TextElem
                         [(''x'', Num 20), (''y'', Num 11), (''font-size'', Num 12)]
                         (Str ''Herbivore'')],
                    Elem ''g''
                      [(''class'', Str ''legend-item''), (''transform'', Translate 0 20)]
                      [Elem ''rect''
                         [(''width'', Num 14), (''height'', Num 14), (''rx'', Num 2),
                          (''ry'', Num 2), (''fill'', Str ''#C75C5C'')] [],
                       TextElem
                         [(''x'', Num 20), (''y'', Num 11), (''font-size'', Num 12)]
                         (Str ''Carnivore'')],
                    Elem ''g''
                      [(''class'', Str ''legend-item''), (''transform'', Translate 0 40)]
                      [Elem ''rect''
                         [(''width'', Num 14), (''height'', Num 14), (''rx'', Num 2),
                          (''ry'', Num 2), (''fill'', Str ''#4D96FF'')] [],
                       TextElem
                         [(''x'', Num 20), (''y'', Num 11), (''font-size'', Num 12)]
                         (Str ''Omnivore'')]]"
      using legend_items_fixed [OF color_inv_calls [OF color_inv_start], of "map diet ds"] by simp
    have draw: "draw_chart ti W H ds = svg_tree W H X Y (fst (bars X Y (H - 150) color_scale ds))
                  (bar_labels X Y ds) (ordinal_calls color_scale (map diet ds))"
      by (simp add: draw_chart_eq Xeq ih Yeq)
    have tree: "render_effect ti (Some c) ds = Some (c\<lparr>innerHTML := [Elem ''svg'' [(''width'', Num W), (''height'', Num H)]
                          [Elem ''g'' [(''transform'', Translate 100 70)]
                             ([Elem ''g'' [(''transform'', Translate 0 (H - 150))]
                                 [AxisBottom X
                                    [(''text-anchor'', Str ''end''), (''dx'', Str ''-0.4em''),
                                     (''dy'', Str ''0.2em''), (''transform'', Rotate (- 90))]],
                               Elem ''g'' [] [AxisLeft Y 6],
                               TextElem
                                 [(''x'', Num ((W - 160) / 2)), (''y'', Num (H - 150 + 50)),
                                  (''text-anchor'', Str ''middle''), (''font-weight'', Num 600)]
                                 (Str ''Animal''),
                               TextElem
                                 [(''transform'', Rotate (- 90)), (''x'', Num (- (H - 150) / 2)),
                                  (''y'', Num (- 60)), (''text-anchor'', Str ''middle''),
                                  (''font-weight'', Num 600)]
                                 (Str ''Speed (km/h)'')]
                              @ map (\<lambda>(xp, yv, col).
                                       Elem ''rect''
                                         [(''class'', Str ''bar''), (''x'', Num xp), (''y'', Num yv),
                                          (''width'', Num (bandwidth X)),
                                          (''height'', Num (H - 150 - yv)), (''fill'', Str col)] [])
                                  (zip xs (zip ys cs))
                              @ map (\<lambda>(xp, yv, s).
                                       TextElem
                                         [(''class'', Str ''bar-label''),
                                          (''x'', Num (xp + bandwidth X / 2)), (''y'', Num (yv - 6)),
                                          (''text-anchor'', Str ''middle''), (''font-size'', Num 12)]
                                         (Num s))
                                  (zip xs (zip ys ss))
                              @ [Elem ''g'' [(''transform'', Translate (W - 160 - 150) (- 10))]
                                   [Elem ''g''
                                      [(''class'', Str ''legend-item''), (''transform'', Translate 0 0)]
                                      [Elem ''rect''
                                         [(''width'', Num 14), (''height'', Num 14), (''rx'', Num 2),
                                          (''ry'', Num 2), (''fill'', Str ''#5AA469'')] [],
                                       TextElem
                                         [(''x'', Num 20), (''y'', Num 11), (''font-size'', Num 12)]
                                         (Str ''Herbivore'')],
                                    Elem ''g''
                                      [(''class'', Str ''legend-item''), (''transform'', Translate 0 20)]
                                      [Elem ''rect''
                                         [(''width'', Num 14), (''height'', Num 14), (''rx'', Num 2),
                                          (''ry'', Num 2), (''fill'', Str ''#C75C5C'')] [],
                                       TextElem
                                         [(''x'', Num 20), (''y'', Num 11), (''font-size'', Num 12)]
                                         (Str ''Carnivore'')],
                                    Elem ''g''
                                      [(''class'', Str ''legend-item''), (''transform'', Translate 0 40)]
                                      [Elem ''rect''
                                         [(''width'', Num 14), (''height'', Num 14), (''rx'', Num 2),
                                          (''ry'', Num 2), (''fill'', Str ''#4D96FF'')] [],
                                       TextElem
                                         [(''x'', Num 20), (''y'', Num 11), (''font-size'', Num 12)]
                                         (Str ''Omnivore'')]]]),
                           TextElem
                             [(''x'', Num (W / 2)), (''y'', Num 35), (''text-anchor'', Str ''middle''),
                              (''font-size'', Num 18), (''font-weight'', Num 700)]
                             (Str ''Animal Speeds by Diet'')]]\<rparr>)"
      unfolding render_effect_some [OF ne] W [symmetric] H [symmetric] draw rects labels
      by (simp add: svg_tree_def x_axis_def y_axis_def axis_titles_def legend_def leg
          chart_title_def ih iw margin_left_def margin_top_def)
    have props: "\<forall>i<length ds.
                    band_call X (name (ds ! i)) = Some (xs ! i)
                    \<and> speed (ds ! i) = Fin (ss ! i)
                    \<and> linear_call Y (Fin (ss ! i)) = Some (Fin (ys ! i))
                    \<and> (\<exists>k. index_of (set_domain ([''Herbivore'', ''Carnivore'', ''Omnivore'']
                                                     @ map diet ds)) (diet (ds ! i)) = Some k
                            \<and> cs ! i = [''#5AA469'', ''#C75C5C'', ''#4D96FF''] ! (k mod 3))"
      using xp sp yv col by blast
    show ?thesis
      using m Y_def len props tree by blast
  qed
  have a: ?A
    by (rule render_effect_twice)
  have b: ?B
    by (rule render_ignores_content)
  have c: ?C
    by (simp add: render_effect_empty clear_def)
  show ?thesis
    using a b c q by blast
qed

theorem rerender_idempotent_witness:
  "(800::real) = max (real (clientWidth container0)) 600
   \<and> (500::real) = max (real (clientHeight container0)) 400
   \<and> [cheetah, elephant] \<noteq> [] \<and> speed cheetah \<noteq> NaN \<and> speed elephant \<noteq> NaN
   \<and> render_effect tickIncrement
         (render_effect tickIncrement (Some container0) [cheetah, elephant]) [cheetah, elephant]
       = render_effect tickIncrement (Some container0) [cheetah, elephant]
   \<and> render_effect tickIncrement (Some container0) [cheetah, elephant]
       = Some (container0\<lparr>innerHTML :=
      [Elem ''svg'' [(''width'', Num 800), (''height'', Num 500)]
        [Elem ''g'' [(''transform'', Translate 100 70)]
           [Elem ''g'' [(''transform'', Translate 0 350)]
              [AxisBottom
                 \<lparr>b_domain = [''Cheetah'', ''Elephant''], b_range = (0, 640),
                    paddingInner = 1 / 5, paddingOuter = 1 / 5, align = 1 / 2, b_round = False\<rparr>
                 [(''text-anchor'', Str ''end''), (''dx'', Str ''-0.4em''),
                  (''dy'', Str ''0.2em''), (''transform'', Rotate (- 90))]],
            Elem ''g'' [] [AxisLeft \<lparr>l_domain = (Fin 0, Fin 120), l_range = (350, 0)\<rparr> 6],
            TextElem
              [(''x'', Num 320), (''y'', Num 400), (''text-anchor'', Str ''middle''),
               (''font-weight'', Num 600)]
              (Str ''Animal''),
            TextElem
              [(''transform'', Rotate (- 90)), (''x'', Num (- 175)), (''y'', Num (- 60)),
               (''text-anchor'', Str ''middle''), (''font-weight'', Num 600)]
              (Str ''Speed (km/h)''),
            Elem ''rect''
              [(''class'', Str ''bar''), (''x'', Num (640 / 11)), (''y'', Num 0),
               (''width'', Num (2560 / 11)), (''height'', Num 350), (''fill'', Str ''#C75C5C'')] [],
            Elem ''rect''
              [(''class'', Str ''bar''), (''x'', Num (3840 / 11)), (''y'', Num (700 / 3)),
               (''width'', Num (2560 / 11)), (''height'', Num (350 / 3)),
               (''fill'', Str ''#5AA469'')] [],
            TextElem
              [(''class'', Str ''bar-label''), (''x'', Num (1920 / 11)), (''y'', Num (- 6)),
               (''text-anchor'', Str ''middle''), (''font-size'', Num 12)]
              (Num 120),
            TextElem
              [(''class'', Str ''bar-label''), (''x'', Num (5120 / 11)), (''y'', Num (682 / 3)),
               (''text-anchor'', Str ''middle''), (''font-size'', Num 12)]
              (Num 40),
            Elem ''g'' [(''transform'', Translate 490 (- 10))]
              [Elem ''g'' [(''class'', Str ''legend-item''), (''transform'', Translate 0 0)]
                 [Elem ''rect''
                    [(''width'', Num 14), (''height'', Num 14), (''rx'', Num 2), (''ry'', Num 2),
                     (''fill'', Str ''#5AA469'')] [],
                  TextElem [(''x'', Num 20), (''y'', Num 11), (''font-size'', Num 12)]
                    (Str ''Herbivore'')],
               Elem ''g'' [(''class'', Str ''legend-item''), (''transform'', Translate 0 20)]
                 [Elem ''rect''
                    [(''width'', Num 14), (''height'', Num 14), (''rx'', Num 2), (''ry'', Num 2),
                     (''fill'', Str ''#C75C5C'')] [],
                  TextElem [(''x'', Num 20), (''y'', Num 11), (''font-size'', Num 12)]
                    (Str ''Carnivore'')],
               Elem ''g'' [(''class'', Str ''legend-item''), (''transform'', Translate 0 40)]
                 [Elem ''rect''
                    [(''width'', Num 14), (''height'', Num 14), (''rx'', Num 2), (''ry'', Num 2),
                     (''fill'', Str ''#4D96FF'')] [],
                  TextElem [(''x'', Num 20), (''y'', Num 11), (''font-size'', Num 12)]
                    (Str ''Omnivore'')]]],
         TextElem
           [(''x'', Num 400), (''y'', Num 35), (''text-anchor'', Str ''middle''),
            (''font-size'', Num 18), (''font-weight'', Num 700)]
           (Str ''Animal Speeds by Diet'')]]\<rparr>)"
proof -
  have W: "(800::real) = max (real (clientWidth container0)) 600"
    and H: "(500::real) = max (real (clientHeight container0)) 400"
    by (simp_all add: container0_def)
  have s: "speed cheetah \<noteq> NaN" "speed elephant \<noteq> NaN"
    by (simp_all add: cheetah_def elephant_def)
  have A: "render_effect tickIncrement
             (render_effect tickIncrement (Some container0) [cheetah, elephant]) [cheetah, elephant]
           = render_effect tickIncrement (Some container0) [cheetah, elephant]"
    by (rule conjunct1 [OF rerender_idempotent [OF W H refl]])
  show ?thesis
    using W H s A render_cheetah_elephant by simp
qed

section \<open>Who may edit a species\<close>

lemma editing_invariant:
  "isEditing st \<longrightarrow> userId = author species \<Longrightarrow>
   isEditing (foldl (dialog_step userId species) st evs) \<longrightarrow> userId = author species"
proof (induction evs arbitrary: st)
  case Nil
  then show ?case by simp
next
  case (Cons ev evs)
  have "isEditing (dialog_step userId species st ev) \<longrightarrow> userId = author species"
  proof (cases ev)
    case (Click b)
    then show ?thesis
      using Cons.prems
      by (auto simp: dialog_buttons_def action_buttons_def isAuthor_def split: if_splits)
  next
    case (OpenChange b)
    then show ?thesis using Cons.prems by simp
  next
    case (SubmitResult ok)
    then show ?thesis using Cons.prems by simp
  qed
  from Cons.IH [OF this] show ?case by simp
qed

text \<open>
  C9. The Edit Species button is among the action buttons exactly when the viewing
  user's id equals the species' author; over the whole dialog it is shown exactly when
  the dialog is open in view mode and the ids are equal. Starting from the closed
  dialog, no sequence of clicks and submissions reaches editing mode for a user who is
  not the author.
\<close>

theorem edit_offered_iff_author:
  "(EditSpecies \<in> set (action_buttons userId species)) = (userId = author species)
   \<and> (EditSpecies \<in> set (dialog_buttons st userId species))
       = (dialog_open st \<and> \<not> isEditing st \<and> userId = author species)
   \<and> (isEditing (foldl (dialog_step userId species) \<lparr>dialog_open = False, isEditing = False\<rparr> evs)
        \<longrightarrow> userId = author species)"
  using editing_invariant [of "\<lparr>dialog_open = False, isEditing = False\<rparr>" userId species evs]
  by (simp add: action_buttons_def dialog_buttons_def isAuthor_def)

theorem edit_offered_iff_author_witness:
  "(EditSpecies \<in> set (action_buttons ''u1''
       \<lparr>species_id = 7, scientific_name = ''Cavia porcellus'', common_name = Some ''Guinea pig'',
        author = ''u1''\<rparr>))
   \<and> isEditing (foldl (dialog_step ''u1''
       \<lparr>species_id = 7, scientific_name = ''Cavia porcellus'', common_name = Some ''Guinea pig'',
        author = ''u1''\<rparr>) \<lparr>dialog_open = False, isEditing = False\<rparr>
       [OpenChange True, Click EditSpecies])
   \<and> ''u1'' = author \<lparr>species_id = 7, scientific_name = ''Cavia porcellus'',
        common_name = Some ''Guinea pig'', author = ''u1''\<rparr>"
  using edit_offered_iff_author [of "''u1''"
      "\<lparr>species_id = 7, scientific_name = ''Cavia porcellus'', common_name = Some ''Guinea pig'',
        author = ''u1''\<rparr>" "\<lparr>dialog_open = True, isEditing = False\<rparr>"
      "[OpenChange True, Click EditSpecies]"]
  by (simp add: dialog_buttons_def action_buttons_def isAuthor_def)

section \<open>The legend\<close>

text \<open>
  C10. For every dataset that is not empty, the legend entries found in the rendered
  chart are exactly three groups, 20 apart: a swatch filled \<open>#5AA469\<close> with the label
  Herbivore, a swatch filled \<open>#C75C5C\<close> with the label Carnivore and a swatch filled
  \<open>#4D96FF\<close> with the label Omnivore, in this order, whatever diets the records have
  (the bars are coloured before the legend is drawn, and a diet outside the three only
  extends the domain of the colour scale behind them).
\<close>

theorem legend_fixed:
  assumes "ds \<noteq> []"
  shows "legend_entries (rendered (render_effect ti (Some c) ds))
           = [Elem ''g'' [(''class'', Str ''legend-item''), (''transform'', Translate 0 0)]
                [Elem ''rect''
                   [(''width'', Num 14), (''height'', Num 14), (''rx'', Num 2), (''ry'', Num 2),
                    (''fill'', Str ''#5AA469'')] [],
                 TextElem [(''x'', Num 20), (''y'', Num 11), (''font-size'', Num 12)]
                   (Str ''Herbivore'')],
              Elem ''g'' [(''class'', Str ''legend-item''), (''transform'', Translate 0 20)]
                [Elem ''rect''
                   [(''width'', Num 14), (''height'', Num 14), (''rx'', Num 2), (''ry'', Num 2),
                    (''fill'', Str ''#C75C5C'')] [],
                 TextElem [(''x'', Num 20), (''y'', Num 11), (''font-size'', Num 12)]
                   (Str ''Carnivore'')],
              Elem ''g'' [(''class'', Str ''legend-item''), (''transform'', Translate 0 40)]
                [Elem ''rect''
                   [(''width'', Num 14), (''height'', Num 14), (''rx'', Num 2), (''ry'', Num 2),
                    (''fill'', Str ''#4D96FF'')] [],
                 TextElem [(''x'', Num 20), (''y'', Num 11), (''font-size'', Num 12)]
                   (Str ''Omnivore'')]]"
proof -
  have "color_inv (ordinal_calls color_scale (map diet ds))"
    by (rule color_inv_calls [OF color_inv_start])
  then show ?thesis
    by (simp add: legend_entries_render [OF assms] legend_items_fixed)
qed

theorem legend_fixed_witness:
  "[cheetah, dragon] \<noteq> []
   \<and> legend_entries (rendered (render_effect tickIncrement (Some container0) [cheetah, dragon]))
       = [Elem ''g'' [(''class'', Str ''legend-item''), (''transform'', Translate 0 0)]
            [Elem ''rect''
               [(''width'', Num 14), (''height'', Num 14), (''rx'', Num 2), (''ry'', Num 2),
                (''fill'', Str ''#5AA469'')] [],
             TextElem [(''x'', Num 20), (''y'', Num 11), (''font-size'', Num 12)]
               (Str ''Herbivore'')],
          Elem ''g'' [(''class'', Str ''legend-item''), (''transform'', Translate 0 20)]
            [Elem ''rect''
               [(''width'', Num 14), (''height'', Num 14), (''rx'', Num 2), (''ry'', Num 2),
                (''fill'', Str ''#C75C5C'')] [],
             TextElem [(''x'', Num 20), (''y'', Num 11), (''font-size'', Num 12)]
               (Str ''Carnivore'')],
          Elem ''g'' [(''class'', Str ''legend-item''), (''transform'', Translate 0 40)]
            [Elem ''rect''
               [(''width'', Num 14), (''height'', Num 14), (''rx'', Num 2), (''ry'', Num 2),
                (''fill'', Str ''#4D96FF'')] [],
             TextElem [(''x'', Num 20), (''y'', Num 11), (''font-size'', Num 12)]
               (Str ''Omnivore'')]]"
  using legend_fixed [of "[cheetah, dragon]" tickIncrement container0] by simp

end
